theory Spec2Isabelle
  imports Main "HOL-Library.AList" "HOL-Library.Sublist"
begin

section \<open>Python values, exceptions and the call discipline\<close>

text \<open>
  The wrappers of \<^verbatim>\<open>src/models/transformer_wrappers.py\<close> wire five sub-modules
  together. A tensor is modelled by what the wrappers read of it, its \<open>size()\<close>, and an
  opaque storage \<open>'a\<close> for its numbers (floating point for fields and times, integers
  for symbol tokens, booleans for masks): the wrappers never look inside.
\<close>

datatype 'a tensor = Tensor (shape: "nat list") (storage: 'a)

text \<open>
  The values a caller can pass and a wrapper can return: \<open>None\<close>, a tensor, or the
  dictionary from strings to tensors that \<open>PROSE_1DPDE.fwd\<close> builds (in insertion
  order, keys unique).
\<close>

datatype 'a pyval =
    PyNone
  | PyTensor "'a tensor"
  | PyDict "(string \<times> 'a tensor) list"

text \<open>
  Exceptions. \<open>Exception msg\<close> is \<open>raise Exception(msg)\<close>. \<open>TypeError\<close> is what
  Python raises when a keyword call does not fit the parameter list, \<open>ValueError n k\<close>
  what unpacking \<open>k\<close> values into \<open>n\<close> targets raises, \<open>AttributeError\<close> what
  \<open>.size\<close> on a value that is not a tensor raises, \<open>IndexError\<close> what \<open>size(i)\<close>
  raises when the tensor has no dimension \<open>i\<close>. \<open>Surfaced e\<close> is any exception
  raised inside a sub-module, which the wrappers let through unchanged.
\<close>

datatype arg_error = Unexpected string | Missing "string list"

datatype 'e error =
    Exception string
  | TypeError arg_error
  | ValueError nat nat
  | AttributeError
  | IndexError
  | Surfaced 'e

text \<open>
  A computation runs on the state \<open>'s\<close> of the sub-modules (parameters, buffers, the
  random generator dropout draws from) and either raises or returns, leaving a state.
\<close>

type_synonym ('s, 'e, 'r) py = "'s \<Rightarrow> ('e error + 'r) \<times> 's"

definition py_return :: "'r \<Rightarrow> ('s, 'e, 'r) py" where
  "py_return x s = (Inr x, s)"

definition py_raise :: "'e error \<Rightarrow> ('s, 'e, 'r) py" where
  "py_raise e s = (Inl e, s)"

definition py_bind :: "('s, 'e, 'q) py \<Rightarrow> ('q \<Rightarrow> ('s, 'e, 'r) py) \<Rightarrow> ('s, 'e, 'r) py" where
  "py_bind p f s = (case p s of (Inl e, s') \<Rightarrow> (Inl e, s') | (Inr x, s') \<Rightarrow> f x s')"

text \<open>Calling a sub-module: its exceptions surface as they are.\<close>

definition call :: "('s \<Rightarrow> ('e + 'r) \<times> 's) \<Rightarrow> ('s, 'e, 'r) py" where
  "call f s = (case f s of (Inl e, s') \<Rightarrow> (Inl (Surfaced e), s') | (Inr x, s') \<Rightarrow> (Inr x, s'))"

text \<open>\<open>v.size()\<close>: only a tensor has the attribute.\<close>

definition tensor_size :: "'a pyval \<Rightarrow> ('s, 'e, 'a tensor) py" where
  "tensor_size v = (case v of PyTensor t \<Rightarrow> py_return t | _ \<Rightarrow> py_raise AttributeError)"

text \<open>\<open>x1, ..., xn = xs\<close>: the number of values must be the number of targets.\<close>

definition unpack :: "nat \<Rightarrow> nat list \<Rightarrow> ('s, 'e, nat list) py" where
  "unpack n xs = (if length xs = n then py_return xs else py_raise (ValueError n (length xs)))"

text \<open>\<open>t.size(i)\<close> for \<open>i \<ge> 0\<close>.\<close>

definition size_at :: "'a tensor \<Rightarrow> nat \<Rightarrow> ('s, 'e, nat) py" where
  "size_at t i = (if i < length (shape t) then py_return (shape t ! i) else py_raise IndexError)"

subsection \<open>Keyword calls of \<open>fwd\<close>\<close>

text \<open>
  Both classes declare
  \<^verbatim>\<open>def fwd(self, data_input, input_times, output_times, symbol_input, symbol_padding_mask=None)\<close>
  and \<open>forward\<close> and \<open>generate\<close> call it as \<open>self.fwd(**kwargs)\<close>. The keyword
  dictionary is an association list with unique keys; the one \<open>forward\<close> collects
  never holds the keys \<open>self\<close> and \<open>mode\<close>, which are parameters of
  \<open>forward\<close> itself. Python refuses a keyword that is no parameter first, then
  reports the required parameters left without a value; the fifth parameter takes its
  default \<open>None\<close>.
\<close>

type_synonym 'a kwargs = "(string \<times> 'a pyval) list"

definition fwd_parameters :: "string list" where
  "fwd_parameters =
     [''data_input'', ''input_times'', ''output_times'', ''symbol_input'', ''symbol_padding_mask'']"

definition fwd_required :: "string list" where
  "fwd_required = [''data_input'', ''input_times'', ''output_times'', ''symbol_input'']"

definition call_kwargs ::
  "('a pyval \<Rightarrow> 'a pyval \<Rightarrow> 'a pyval \<Rightarrow> 'a pyval \<Rightarrow> 'a pyval \<Rightarrow> ('s, 'e, 'r) py)
     \<Rightarrow> 'a kwargs \<Rightarrow> ('s, 'e, 'r) py" where
  "call_kwargs f kwargs =
     (case find (\<lambda>k. k \<notin> set fwd_parameters) (map fst kwargs) of
        Some k \<Rightarrow> py_raise (TypeError (Unexpected k))
      | None \<Rightarrow>
          (case (map_of kwargs ''data_input'', map_of kwargs ''input_times'',
                 map_of kwargs ''output_times'', map_of kwargs ''symbol_input'') of
             (Some data_input, Some input_times, Some output_times, Some symbol_input) \<Rightarrow>
               f data_input input_times output_times symbol_input
                 (case map_of kwargs ''symbol_padding_mask'' of
                    None \<Rightarrow> PyNone
                  | Some symbol_padding_mask \<Rightarrow> symbol_padding_mask)
           | _ \<Rightarrow>
               py_raise (TypeError (Missing (filter (\<lambda>p. map_of kwargs p = None) fwd_required)))))"

section \<open>The sub-modules\<close>

text \<open>
  The embedder, the encoders, the fusion block and the decoder are defined in
  \<^verbatim>\<open>embedder.py\<close> and \<^verbatim>\<open>transformer.py\<close>; the wrappers only call them, so they
  are parameters here. Each takes the arguments the wrappers pass, in the order of the
  call, reads and updates the module state, and returns a tensor or raises.
  \<open>PROSE_Fluids\<close> constructs no \<open>symbol_encoder\<close> and no \<open>fusion\<close> (the two lines
  are commented out in its \<open>__init__\<close>); its functions below never use these fields.
\<close>

record ('a, 's, 'e) modules =
  embedder_encode :: "'a tensor \<Rightarrow> 'a pyval \<Rightarrow> 's \<Rightarrow> ('e + 'a tensor) \<times> 's"
  data_encoder :: "'a tensor \<Rightarrow> 's \<Rightarrow> ('e + 'a tensor) \<times> 's"
  symbol_encoder :: "'a pyval \<Rightarrow> 'a pyval \<Rightarrow> 's \<Rightarrow> ('e + 'a tensor) \<times> 's"
  fusion :: "'a tensor \<Rightarrow> 'a tensor \<Rightarrow> 'a pyval \<Rightarrow> 'a pyval \<Rightarrow> 's \<Rightarrow> ('e + 'a tensor \<times> 'a pyval) \<times> 's"
  get_query_emb :: "'a pyval \<Rightarrow> 's \<Rightarrow> ('e + 'a tensor) \<times> 's"
  data_decoder :: "'a tensor \<Rightarrow> 'a tensor \<Rightarrow> 'a pyval \<Rightarrow> 's \<Rightarrow> ('e + 'a tensor) \<times> 's"
  embedder_decode :: "'a tensor \<Rightarrow> 's \<Rightarrow> ('e + 'a tensor) \<times> 's"

section \<open>\<open>PROSE_Fluids\<close>\<close>

text \<open>
  \<open>fwd\<close>, lines 60 to 127. The five names unpacked from \<open>data_input.size()\<close> and
  \<open>data_len\<close> are not used again; \<open>symbol_input\<close> and \<open>symbol_padding_mask\<close> are
  never read.
\<close>

definition PROSE_Fluids_fwd ::
  "('a, 's, 'e) modules \<Rightarrow> 'a pyval \<Rightarrow> 'a pyval \<Rightarrow> 'a pyval \<Rightarrow> 'a pyval \<Rightarrow> 'a pyval
     \<Rightarrow> ('s, 'e, 'a pyval) py" where
  "PROSE_Fluids_fwd m data_input input_times output_times symbol_input symbol_padding_mask =
     py_bind (tensor_size data_input) (\<lambda>data_input.
     py_bind (unpack 5 (shape data_input)) (\<lambda>_.
     py_bind (call (embedder_encode m data_input input_times)) (\<lambda>data_input.
     py_bind (size_at data_input 1) (\<lambda>data_len.
     py_bind (call (data_encoder m data_input)) (\<lambda>data_encoded.
     let fused = data_encoded; fused_mask = PyNone in
     py_bind (call (get_query_emb m output_times)) (\<lambda>query_emb.
     py_bind (call (data_decoder m fused query_emb fused_mask)) (\<lambda>data_output.
     py_bind (call (embedder_decode m data_output)) (\<lambda>data_output.
     py_return (PyTensor data_output)))))))))"

definition PROSE_Fluids_generate :: "('a, 's, 'e) modules \<Rightarrow> 'a kwargs \<Rightarrow> ('s, 'e, 'a pyval) py" where
  "PROSE_Fluids_generate m kwargs = call_kwargs (PROSE_Fluids_fwd m) kwargs"

definition PROSE_Fluids_forward ::
  "('a, 's, 'e) modules \<Rightarrow> string \<Rightarrow> 'a kwargs \<Rightarrow> ('s, 'e, 'a pyval) py" where
  "PROSE_Fluids_forward m mode kwargs =
     (if mode = ''fwd'' then call_kwargs (PROSE_Fluids_fwd m) kwargs
      else if mode = ''generate'' then PROSE_Fluids_generate m kwargs
      else py_raise (Exception (''Unknown mode: '' @ mode)))"

section \<open>\<open>PROSE_1DPDE\<close>\<close>

text \<open>
  \<open>fwd\<close>, lines 208 to 280. \<open>output[k] = v\<close> on the dictionary is \<open>AList.update\<close>:
  a new key goes to the end, an old key keeps its place.
\<close>

definition PROSE_1DPDE_fwd ::
  "('a, 's, 'e) modules \<Rightarrow> 'a pyval \<Rightarrow> 'a pyval \<Rightarrow> 'a pyval \<Rightarrow> 'a pyval \<Rightarrow> 'a pyval
     \<Rightarrow> ('s, 'e, 'a pyval) py" where
  "PROSE_1DPDE_fwd m data_input input_times output_times symbol_input symbol_padding_mask =
     (let output = [] in
     py_bind (tensor_size data_input) (\<lambda>data_input.
     py_bind (unpack 4 (shape data_input)) (\<lambda>_.
     py_bind (call (embedder_encode m data_input input_times)) (\<lambda>data_input.
     py_bind (size_at data_input 1) (\<lambda>data_len.
     let output = AList.update ''data_embeded'' data_input output in
     py_bind (call (data_encoder m data_input)) (\<lambda>data_encoded.
     py_bind (call (symbol_encoder m symbol_input symbol_padding_mask)) (\<lambda>symbol_encoded.
     py_bind (call (fusion m data_encoded symbol_encoded PyNone symbol_padding_mask))
       (\<lambda>(fused, fused_mask).
     let output = AList.update ''data_encoded'' data_encoded output;
         output = AList.update ''symbol_encoded'' symbol_encoded output;
         output = AList.update ''fused'' fused output in
     py_bind (call (get_query_emb m output_times)) (\<lambda>query_emb.
     py_bind (call (data_decoder m fused query_emb fused_mask)) (\<lambda>data_output.
     py_bind (call (embedder_decode m data_output)) (\<lambda>data_output.
     let output = AList.update ''data_output'' data_output output in
     py_return (PyDict output))))))))))))"

definition PROSE_1DPDE_generate :: "('a, 's, 'e) modules \<Rightarrow> 'a kwargs \<Rightarrow> ('s, 'e, 'a pyval) py" where
  "PROSE_1DPDE_generate m kwargs = call_kwargs (PROSE_1DPDE_fwd m) kwargs"

definition PROSE_1DPDE_forward ::
  "('a, 's, 'e) modules \<Rightarrow> string \<Rightarrow> 'a kwargs \<Rightarrow> ('s, 'e, 'a pyval) py" where
  "PROSE_1DPDE_forward m mode kwargs =
     (if mode = ''fwd'' then call_kwargs (PROSE_1DPDE_fwd m) kwargs
      else if mode = ''generate'' then PROSE_1DPDE_generate m kwargs
      else py_raise (Exception (''Unknown mode: '' @ mode)))"

section \<open>The steps of \<open>PROSE_Fluids.fwd\<close> on their own\<close>

text \<open>
  Lines 91 to 125 of the source, the three steps that follow the unpacking of
  \<open>data_input.size()\<close>; they are what the two variants are compared on.
\<close>

definition PROSE_Fluids_steps ::
  "('a, 's, 'e) modules \<Rightarrow> 'a tensor \<Rightarrow> 'a pyval \<Rightarrow> 'a pyval \<Rightarrow> ('s, 'e, 'a tensor) py" where
  "PROSE_Fluids_steps m data_input input_times output_times =
     py_bind (call (embedder_encode m data_input input_times)) (\<lambda>data_input.
     py_bind (size_at data_input 1) (\<lambda>data_len.
     py_bind (call (data_encoder m data_input)) (\<lambda>data_encoded.
     let fused = data_encoded; fused_mask = PyNone in
     py_bind (call (get_query_emb m output_times)) (\<lambda>query_emb.
     py_bind (call (data_decoder m fused query_emb fused_mask)) (\<lambda>data_output.
     call (embedder_decode m data_output))))))"

text \<open>
  A symbol path that is switched off: the symbol encoder returns some tensor and the
  fusion returns its first stream with no mask, neither touching the module state.
\<close>

definition inert_symbol_path :: "('a, 's, 'e) modules \<Rightarrow> bool" where
  "inert_symbol_path m \<longleftrightarrow>
     (\<forall>x k s. \<exists>y. symbol_encoder m x k s = (Inr y, s)) \<and>
     (\<forall>x0 x1 k0 k1 s. fusion m x0 x1 k0 k1 s = (Inr (x0, PyNone), s))"

text \<open>What a caller of the 1D variant finds under \<open>"data_output"\<close>.\<close>

definition data_output_of :: "'a pyval \<Rightarrow> 'a tensor option" where
  "data_output_of r = (case r of PyDict output \<Rightarrow> map_of output ''data_output'' | _ \<Rightarrow> None)"

section \<open>Observing the calls\<close>

text \<open>
  The stages, in the words of the specification's control flow: embed
  (\<open>embedder.encode\<close>), encode the data (\<open>data_encoder\<close>), encode the symbols
  (\<open>symbol_encoder\<close>), fuse (\<open>fusion\<close>), build the decoder queries
  (\<open>data_decoder.get_query_emb\<close>), decode (\<open>data_decoder\<close>) and inverse-embed
  (\<open>embedder.decode\<close>).
\<close>

datatype stage = Embed | Encode_data | Encode_symbol | Fuse | Build_queries | Decode | Inverse_embed

type_synonym 'a entry = "stage \<times> 'a pyval list"

text \<open>
  \<open>traced m\<close> behaves as \<open>m\<close> and keeps, beside the state of \<open>m\<close>, the list of the
  calls made so far, each with its arguments in the order of the call.
\<close>

definition logged :: "'a entry \<Rightarrow> ('s \<Rightarrow> 'r \<times> 's) \<Rightarrow> 's \<times> 'a entry list \<Rightarrow> 'r \<times> 's \<times> 'a entry list" where
  "logged c f = (\<lambda>(s, log). case f s of (r, s') \<Rightarrow> (r, s', log @ [c]))"

definition traced :: "('a, 's, 'e) modules \<Rightarrow> ('a, 's \<times> 'a entry list, 'e) modules" where
  "traced m =
     \<lparr> embedder_encode = (\<lambda>x times. logged (Embed, [PyTensor x, times]) (embedder_encode m x times)),
       data_encoder = (\<lambda>x. logged (Encode_data, [PyTensor x]) (data_encoder m x)),
       symbol_encoder = (\<lambda>x k. logged (Encode_symbol, [x, k]) (symbol_encoder m x k)),
       fusion = (\<lambda>x0 x1 k0 k1.
         logged (Fuse, [PyTensor x0, PyTensor x1, k0, k1]) (fusion m x0 x1 k0 k1)),
       get_query_emb = (\<lambda>times. logged (Build_queries, [times]) (get_query_emb m times)),
       data_decoder = (\<lambda>src q k.
         logged (Decode, [PyTensor src, PyTensor q, k]) (data_decoder m src q k)),
       embedder_decode = (\<lambda>y. logged (Inverse_embed, [PyTensor y]) (embedder_decode m y)) \<rparr>"

text \<open>
  The control flow as the specification words it: embed, encode(data), then, when the
  symbol path is active, encode(symbol) and fuse, then build the decoder queries, decode,
  inverse-embed.
\<close>

definition spec_order :: "bool \<Rightarrow> stage list" where
  "spec_order symbolic =
     [Embed, Encode_data] @ (if symbolic then [Encode_symbol, Fuse] else [])
       @ [Build_queries, Decode, Inverse_embed]"

text \<open>
  A computation over traced modules that appends to the log a prefix of \<open>stages\<close>,
  and all of \<open>stages\<close> when it returns.
\<close>

definition emits :: "('s \<times> 'a entry list, 'e, 'r) py \<Rightarrow> stage list \<Rightarrow> bool" where
  "emits p stages \<longleftrightarrow>
     (\<forall>s log r s' log'. p (s, log) = (r, s', log') \<longrightarrow>
        (\<exists>new. log' = log @ new \<and> prefix (map fst new) stages \<and>
           (isl r \<or> map fst new = stages)))"

section \<open>The shapes the sub-modules produce\<close>

text \<open>
  The embedder's configuration, as far as shapes go: the hidden dimension, the number
  of patches along one spatial axis (\<open>patch_num\<close>), the number of query positions the
  decoder builds for one output time, and the spatial grid and the channel count the
  embedder was constructed with (\<open>x_num\<close> once per spatial axis, and
  \<open>max_output_dim\<close>, lines 30 to 33 and 143 to 146 of the source).
\<close>

record shape_config =
  hidden_dim :: nat
  patch_num :: nat
  query_patches :: nat
  grid :: "nat list"
  channels :: nat

text \<open>
  Modelled from the spec: the embedder, the encoders, the fusion block and the decoder
  (\<^verbatim>\<open>embedder.py\<close>, \<^verbatim>\<open>transformer.py\<close>) are not among the sources; what follows
  is what the specification, and the shape comments of \<open>fwd\<close> that it was written
  from, say of the tensors they return.
  \<^item> The embedder turns a field tensor batch \<open>\<times>\<close> time \<open>\<times>\<close> spatial grid \<open>\<times>\<close> channel
    into a latent sequence batch \<open>\<times>\<close> sequence length \<open>\<times>\<close> hidden dimension, the
    sequence length being the spatial patch count times the time steps
    (\<open>input_len * patch_num * patch_num\<close> in 2D, \<open>input_len * patch_num\<close> in 1D);
    its inverse turns the decoder's output back into a field tensor batch \<open>\<times>\<close>
    output length \<open>\<times>\<close> spatial grid \<open>\<times>\<close> channel.
  \<^item> The data encoder returns a sequence of the shape it is given.
  \<^item> The symbol encoder turns batch \<open>\<times>\<close> token length into batch \<open>\<times>\<close> token length
    \<open>\<times>\<close> hidden dimension.
  \<^item> The fusion returns a sequence of the two lengths added (\<open>data_len + symbol_len\<close>).
  \<^item> The decoder builds its queries from the output times, batch \<open>\<times>\<close> output length
    \<open>\<times>\<close> 1, and returns a sequence of the queries' shape.
\<close>

definition shape_contract :: "shape_config \<Rightarrow> ('a, 's, 'e) modules \<Rightarrow> bool" where
  "shape_contract c m \<longleftrightarrow>
     0 < query_patches c \<and>
     (\<forall>x times s emb s' bs il.
        embedder_encode m x times s = (Inr emb, s') \<longrightarrow>
        shape x = bs # il # grid c @ [channels c] \<longrightarrow>
        shape emb = [bs, il * patch_num c ^ length (grid c), hidden_dim c]) \<and>
     (\<forall>x s y s'. data_encoder m x s = (Inr y, s') \<longrightarrow> shape y = shape x) \<and>
     (\<forall>x k s y s' bs sl.
        symbol_encoder m (PyTensor x) k s = (Inr y, s') \<longrightarrow>
        shape x = [bs, sl] \<longrightarrow> shape y = [bs, sl, hidden_dim c]) \<and>
     (\<forall>x0 x1 k0 k1 s fused fused_mask s' bs l0 l1 d.
        fusion m x0 x1 k0 k1 s = (Inr (fused, fused_mask), s') \<longrightarrow>
        shape x0 = [bs, l0, d] \<longrightarrow> shape x1 = [bs, l1, d] \<longrightarrow>
        shape fused = [bs, l0 + l1, d]) \<and>
     (\<forall>t s q s' bs ol.
        get_query_emb m (PyTensor t) s = (Inr q, s') \<longrightarrow>
        shape t = [bs, ol, 1] \<longrightarrow> shape q = [bs, ol * query_patches c, hidden_dim c]) \<and>
     (\<forall>src q k s y s'. data_decoder m src q k s = (Inr y, s') \<longrightarrow> shape y = shape q) \<and>
     (\<forall>y s out s' bs ol.
        embedder_decode m y s = (Inr out, s') \<longrightarrow>
        shape y = [bs, ol * query_patches c, hidden_dim c] \<longrightarrow>
        shape out = bs # ol # grid c @ [channels c])"

text \<open>
  Modelled from the spec: sub-modules that compute these shapes and nothing else (the
  storage is \<open>unit\<close>), raise on an input of another shape, and count their calls in
  the state. They stand in for the absent modules wherever a run is evaluated.
\<close>

definition spec_modules :: "shape_config \<Rightarrow> (unit, nat, unit) modules" where
  "spec_modules c =
     \<lparr> embedder_encode = (\<lambda>x times s.
         (case shape x of
            bs # il # rest \<Rightarrow>
              if rest = grid c @ [channels c]
              then Inr (Tensor [bs, il * patch_num c ^ length (grid c), hidden_dim c] ())
              else Inl ()
          | _ \<Rightarrow> Inl (), Suc s)),
       data_encoder = (\<lambda>x s. (Inr x, Suc s)),
       symbol_encoder = (\<lambda>v k s.
         (case v of
            PyTensor x \<Rightarrow>
              (case shape x of
                 [bs, sl] \<Rightarrow> Inr (Tensor [bs, sl, hidden_dim c] ())
               | _ \<Rightarrow> Inl ())
          | _ \<Rightarrow> Inl (), Suc s)),
       fusion = (\<lambda>x0 x1 k0 k1 s.
         (case (shape x0, shape x1) of
            ([bs, l0, d], [bs', l1, d']) \<Rightarrow>
              if bs = bs' \<and> d = d'
              then Inr (Tensor [bs, l0 + l1, d] (),
                        case k1 of PyNone \<Rightarrow> PyNone | _ \<Rightarrow> PyTensor (Tensor [bs, l0 + l1] ()))
              else Inl ()
          | _ \<Rightarrow> Inl (), Suc s)),
       get_query_emb = (\<lambda>v s.
         (case v of
            PyTensor t \<Rightarrow>
              (case shape t of
                 [bs, ol, l] \<Rightarrow>
                   if l = 1 then Inr (Tensor [bs, ol * query_patches c, hidden_dim c] ())
                   else Inl ()
               | _ \<Rightarrow> Inl ())
          | _ \<Rightarrow> Inl (), Suc s)),
       data_decoder = (\<lambda>src q k s. (Inr q, Suc s)),
       embedder_decode = (\<lambda>y s.
         (case shape y of
            [bs, ql, d] \<Rightarrow>
              if d = hidden_dim c \<and> query_patches c dvd ql
              then Inr (Tensor (bs # ql div query_patches c # grid c @ [channels c]) ())
              else Inl ()
          | _ \<Rightarrow> Inl (), Suc s)) \<rparr>"

text \<open>The same with the symbol path switched off.\<close>

definition inert_modules :: "shape_config \<Rightarrow> (unit, nat, unit) modules" where
  "inert_modules c =
     (spec_modules c)
       \<lparr> symbol_encoder := (\<lambda>v k s. (Inr (Tensor [] ()), s)),
         fusion := (\<lambda>x0 x1 k0 k1 s. (Inr (x0, PyNone), s)) \<rparr>"

subsection \<open>A sample call of each variant\<close>

text \<open>
  One batch, three input times, two output times, five symbol tokens; a 4 by 4 grid
  (2D) and a grid of 4 points (1D), three channels, two patches along each axis.
\<close>

definition fluids_config :: shape_config where
  "fluids_config =
     \<lparr> hidden_dim = 8, patch_num = 2, query_patches = 4, grid = [4, 4], channels = 3 \<rparr>"

definition pde_config :: shape_config where
  "pde_config =
     \<lparr> hidden_dim = 8, patch_num = 2, query_patches = 2, grid = [4], channels = 3 \<rparr>"

definition fluids_field :: "unit pyval" where
  "fluids_field = PyTensor (Tensor [1, 3, 4, 4, 3] ())"

definition pde_field :: "unit pyval" where
  "pde_field = PyTensor (Tensor [1, 3, 4, 3] ())"

definition time_stamps :: "nat \<Rightarrow> unit pyval" where
  "time_stamps n = PyTensor (Tensor [1, n, 1] ())"

definition tokens :: "unit pyval" where
  "tokens = PyTensor (Tensor [1, 5] ())"

definition padding :: "unit pyval" where
  "padding = PyTensor (Tensor [1, 5] ())"


section \<open>Auxiliary notions for the proofs\<close>

text \<open>
  A computation that never raises the generic \<open>Exception\<close>: what holds of \<open>fwd\<close>,
  whose own failures are type, value, attribute and index errors and whatever the
  sub-modules raise.
\<close>

definition no_Exception :: "('s, 'e, 'r) py \<Rightarrow> bool" where
  "no_Exception p = (\<forall>s msg s'. p s \<noteq> (Inl (Exception msg), s'))"

text \<open>The log is an observer: a traced run is the run, plus the log.\<close>

definition erase :: "('e error + 'r) \<times> 's \<times> 'a entry list \<Rightarrow> ('e error + 'r) \<times> 's" where
  "erase x = (fst x, fst (snd x))"

definition observes :: "('s \<times> 'a entry list, 'e, 'r) py \<Rightarrow> ('s, 'e, 'r) py \<Rightarrow> bool" where
  "observes p' p \<longleftrightarrow> (\<forall>s log. erase (p' (s, log)) = p s)"

section \<open>Basic facts\<close>

lemma no_Exception_return: "no_Exception (py_return x)"
  by (simp add: no_Exception_def py_return_def)

lemma no_Exception_raise: "(\<And>msg. e \<noteq> Exception msg) \<Longrightarrow> no_Exception (py_raise e)"
  by (simp add: no_Exception_def py_raise_def)

lemma no_Exception_call: "no_Exception (call f)"
  by (auto simp: no_Exception_def call_def split: prod.splits sum.splits)

lemma no_Exception_bind:
  "no_Exception p \<Longrightarrow> (\<And>x. no_Exception (f x)) \<Longrightarrow> no_Exception (py_bind p f)"
  by (auto simp: no_Exception_def py_bind_def split: prod.splits sum.splits)

lemma no_Exception_tensor_size: "no_Exception (tensor_size v)"
  by (cases v) (simp_all add: tensor_size_def no_Exception_return no_Exception_raise)

lemma no_Exception_unpack: "no_Exception (unpack n xs)"
  by (simp add: unpack_def no_Exception_return no_Exception_raise)

lemma no_Exception_size_at: "no_Exception (size_at t i)"
  by (simp add: size_at_def no_Exception_return no_Exception_raise)

lemmas no_Exception_intros =
  no_Exception_bind no_Exception_return no_Exception_call no_Exception_tensor_size
  no_Exception_unpack no_Exception_size_at

lemma no_Exception_Fluids_fwd: "no_Exception (PROSE_Fluids_fwd m d it ot si pm)"
  unfolding PROSE_Fluids_fwd_def Let_def
  by (intro no_Exception_intros)

lemma no_Exception_1DPDE_fwd: "no_Exception (PROSE_1DPDE_fwd m d it ot si pm)"
  unfolding PROSE_1DPDE_fwd_def Let_def split_def
  by (intro no_Exception_intros)

lemma no_Exception_call_kwargs:
  "(\<And>a b c d e. no_Exception (f a b c d e)) \<Longrightarrow> no_Exception (call_kwargs f kwargs)"
  by (auto simp: call_kwargs_def no_Exception_raise split: option.splits)

lemma Fluids_forward_cases:
  "PROSE_Fluids_forward m mode kwargs s =
     (if mode \<in> {''fwd'', ''generate''} then call_kwargs (PROSE_Fluids_fwd m) kwargs s
      else (Inl (Exception (''Unknown mode: '' @ mode)), s))"
  by (simp add: PROSE_Fluids_forward_def PROSE_Fluids_generate_def py_raise_def)

lemma PDE_forward_cases:
  "PROSE_1DPDE_forward m mode kwargs s =
     (if mode \<in> {''fwd'', ''generate''} then call_kwargs (PROSE_1DPDE_fwd m) kwargs s
      else (Inl (Exception (''Unknown mode: '' @ mode)), s))"
  by (simp add: PROSE_1DPDE_forward_def PROSE_1DPDE_generate_def py_raise_def)

lemma Fluids_kw_no_Exception:
  "fst (call_kwargs (PROSE_Fluids_fwd m) kwargs s) \<noteq> Inl (Exception msg)"
  using no_Exception_call_kwargs [of "PROSE_Fluids_fwd m" kwargs, OF no_Exception_Fluids_fwd]
  by (metis no_Exception_def prod.collapse)

lemma PDE_kw_no_Exception:
  "fst (call_kwargs (PROSE_1DPDE_fwd m) kwargs s) \<noteq> Inl (Exception msg)"
  using no_Exception_call_kwargs [of "PROSE_1DPDE_fwd m" kwargs, OF no_Exception_1DPDE_fwd]
  by (metis no_Exception_def prod.collapse)

subsection \<open>Returning runs, step by step\<close>


lemma py_bind_Inr:
  "py_bind p f s = (Inr r, s') \<longleftrightarrow> (\<exists>x s1. p s = (Inr x, s1) \<and> f x s1 = (Inr r, s'))"
  by (auto simp: py_bind_def split: prod.splits sum.splits)

lemma py_return_Inr: "py_return x s = (Inr r, s') \<longleftrightarrow> r = x \<and> s' = s"
  by (auto simp: py_return_def)

lemma call_Inr: "call f s = (Inr r, s') \<longleftrightarrow> f s = (Inr r, s')"
  by (auto simp: call_def split: prod.splits sum.splits)

lemma tensor_size_Inr: "tensor_size v s = (Inr t, s') \<longleftrightarrow> v = PyTensor t \<and> s' = s"
  by (cases v) (auto simp: tensor_size_def py_return_def py_raise_def)

lemma unpack_Inr: "unpack n xs s = (Inr ys, s') \<longleftrightarrow> length xs = n \<and> ys = xs \<and> s' = s"
  by (auto simp: unpack_def py_return_def py_raise_def)

lemma size_at_Inr:
  "size_at t i s = (Inr n, s') \<longleftrightarrow> i < length (shape t) \<and> n = shape t ! i \<and> s' = s"
  by (auto simp: size_at_def py_return_def py_raise_def)

lemmas Inr_simps = py_bind_Inr py_return_Inr call_Inr tensor_size_Inr unpack_Inr size_at_Inr

lemma Fluids_steps_Inr:
  "PROSE_Fluids_steps m x it ot s = (Inr out, s') \<longleftrightarrow>
     (\<exists>emb s1 enc s2 q s3 dec s4.
        embedder_encode m x it s = (Inr emb, s1) \<and> 1 < length (shape emb) \<and>
        data_encoder m emb s1 = (Inr enc, s2) \<and>
        get_query_emb m ot s2 = (Inr q, s3) \<and>
        data_decoder m enc q PyNone s3 = (Inr dec, s4) \<and>
        embedder_decode m dec s4 = (Inr out, s'))"
  unfolding PROSE_Fluids_steps_def Let_def
  by (simp add: Inr_simps)

lemma Fluids_fwd_steps:
  "PROSE_Fluids_fwd m d it ot si pm =
     py_bind (tensor_size d) (\<lambda>x. py_bind (unpack 5 (shape x)) (\<lambda>_.
     py_bind (PROSE_Fluids_steps m x it ot) (\<lambda>out. py_return (PyTensor out))))"
  unfolding PROSE_Fluids_fwd_def PROSE_Fluids_steps_def Let_def
  by (auto simp: py_bind_def fun_eq_iff split: prod.splits sum.splits)

lemma Fluids_fwd_Inr:
  "PROSE_Fluids_fwd m d it ot si pm s = (Inr r, s') \<longleftrightarrow>
     (\<exists>x emb s1 enc s2 q s3 dec s4 out.
        d = PyTensor x \<and> length (shape x) = 5 \<and>
        embedder_encode m x it s = (Inr emb, s1) \<and> 1 < length (shape emb) \<and>
        data_encoder m emb s1 = (Inr enc, s2) \<and>
        get_query_emb m ot s2 = (Inr q, s3) \<and>
        data_decoder m enc q PyNone s3 = (Inr dec, s4) \<and>
        embedder_decode m dec s4 = (Inr out, s') \<and> r = PyTensor out)"
  unfolding Fluids_fwd_steps
  by (simp add: Inr_simps Fluids_steps_Inr) blast

lemma PDE_fwd_Inr:
  "PROSE_1DPDE_fwd m d it ot si pm s = (Inr r, s') \<longleftrightarrow>
     (\<exists>x emb s1 enc s2 sym s3 fused fused_mask s4 q s5 dec s6 out.
        d = PyTensor x \<and> length (shape x) = 4 \<and>
        embedder_encode m x it s = (Inr emb, s1) \<and> 1 < length (shape emb) \<and>
        data_encoder m emb s1 = (Inr enc, s2) \<and>
        symbol_encoder m si pm s2 = (Inr sym, s3) \<and>
        fusion m enc sym PyNone pm s3 = (Inr (fused, fused_mask), s4) \<and>
        get_query_emb m ot s4 = (Inr q, s5) \<and>
        data_decoder m fused q fused_mask s5 = (Inr dec, s6) \<and>
        embedder_decode m dec s6 = (Inr out, s') \<and>
        r = PyDict [(''data_embeded'', emb), (''data_encoded'', enc), (''symbol_encoded'', sym),
                    (''fused'', fused), (''data_output'', out)])"
  unfolding PROSE_1DPDE_fwd_def Let_def
  by (simp add: Inr_simps split_def)


lemma logged_eq:
  "logged c f (s, log) = (r, st) \<longleftrightarrow> (\<exists>s1. f s = (r, s1) \<and> st = (s1, log @ [c]))"
  by (auto simp: logged_def split: prod.splits)

lemma traced_simps:
  "embedder_encode (traced m) x it = logged (Embed, [PyTensor x, it]) (embedder_encode m x it)"
  "data_encoder (traced m) x = logged (Encode_data, [PyTensor x]) (data_encoder m x)"
  "symbol_encoder (traced m) v k = logged (Encode_symbol, [v, k]) (symbol_encoder m v k)"
  "fusion (traced m) x0 x1 k0 k1 =
     logged (Fuse, [PyTensor x0, PyTensor x1, k0, k1]) (fusion m x0 x1 k0 k1)"
  "get_query_emb (traced m) ot = logged (Build_queries, [ot]) (get_query_emb m ot)"
  "data_decoder (traced m) src q k =
     logged (Decode, [PyTensor src, PyTensor q, k]) (data_decoder m src q k)"
  "embedder_decode (traced m) y = logged (Inverse_embed, [PyTensor y]) (embedder_decode m y)"
  by (simp_all add: traced_def)

lemma emits_return: "emits (py_return x) []"
  by (simp add: emits_def py_return_def)

lemma emits_raise: "emits (py_raise e) []"
  by (simp add: emits_def py_raise_def)

lemma emits_tensor_size: "emits (tensor_size v) []"
  by (cases v) (simp_all add: tensor_size_def emits_return emits_raise)

lemma emits_unpack: "emits (unpack n xs) []"
  by (simp add: unpack_def emits_return emits_raise)

lemma emits_size_at: "emits (size_at t i) []"
  by (simp add: size_at_def emits_return emits_raise)

lemma emits_call_logged: "emits (call (logged (st, args) f)) [st]"
  by (auto simp: emits_def call_def logged_def split: prod.splits sum.splits)

lemma emits_bind:
  assumes p: "emits p as" and f: "\<And>x. emits (f x) bs"
  shows "emits (py_bind p f) (as @ bs)"
  unfolding emits_def
proof (intro allI impI)
  fix s log r s' log'
  assume run: "py_bind p f (s, log) = (r, s', log')"
  obtain r1 s1 log1 where p1: "p (s, log) = (r1, s1, log1)"
    by (metis prod_cases3)
  from p p1 obtain new1 where n1: "log1 = log @ new1" "prefix (map fst new1) as"
    "isl r1 \<or> map fst new1 = as"
    unfolding emits_def by blast
  show "\<exists>new. log' = log @ new \<and> prefix (map fst new) (as @ bs) \<and>
          (isl r \<or> map fst new = as @ bs)"
  proof (cases r1)
    case (Inl e)
    with run p1 have "r = Inl e" "log' = log1"
      by (simp_all add: py_bind_def)
    with n1 show ?thesis
      by (auto intro: prefix_prefix)
  next
    case (Inr x)
    with run p1 have f1: "f x (s1, log1) = (r, s', log')"
      by (simp add: py_bind_def)
    from f [of x] f1 obtain new2 where n2: "log' = log1 @ new2" "prefix (map fst new2) bs"
      "isl r \<or> map fst new2 = bs"
      unfolding emits_def by blast
    from Inr n1 have a: "map fst new1 = as" by simp
    show ?thesis
      using n1(1) n2 a by (intro exI [of _ "new1 @ new2"]) auto
  qed
qed

lemma emits_Fluids_fwd:
  "emits (PROSE_Fluids_fwd (traced m) d it ot si pm) (spec_order False)"
proof -
  have "emits (PROSE_Fluids_fwd (traced m) d it ot si pm)
          ([] @ [] @ [Embed] @ [] @ [Encode_data] @ [Build_queries] @ [Decode] @ [Inverse_embed] @ [])"
    unfolding PROSE_Fluids_fwd_def Let_def traced_simps
    by (intro emits_bind emits_tensor_size emits_unpack emits_size_at emits_call_logged emits_return)
  then show ?thesis
    by (simp add: spec_order_def)
qed

lemma emits_1DPDE_fwd:
  "emits (PROSE_1DPDE_fwd (traced m) d it ot si pm) (spec_order True)"
proof -
  have "emits (PROSE_1DPDE_fwd (traced m) d it ot si pm)
          ([] @ [] @ [Embed] @ [] @ [Encode_data] @ [Encode_symbol] @ [Fuse] @ [Build_queries]
             @ [Decode] @ [Inverse_embed] @ [])"
    unfolding PROSE_1DPDE_fwd_def Let_def traced_simps split_def
    by (intro emits_bind emits_tensor_size emits_unpack emits_size_at emits_call_logged emits_return)
  then show ?thesis
    by (simp add: spec_order_def)
qed

lemma observes_return: "observes (py_return x) (py_return x)"
  by (simp add: observes_def erase_def py_return_def)

lemma observes_raise: "observes (py_raise e) (py_raise e)"
  by (simp add: observes_def erase_def py_raise_def)

lemma observes_tensor_size: "observes (tensor_size v) (tensor_size v)"
  by (cases v) (simp_all add: tensor_size_def observes_return observes_raise)

lemma observes_unpack: "observes (unpack n xs) (unpack n xs)"
  by (simp add: unpack_def observes_return observes_raise)

lemma observes_size_at: "observes (size_at t i) (size_at t i)"
  by (simp add: size_at_def observes_return observes_raise)

lemma observes_call_logged: "observes (call (logged c f)) (call f)"
  by (auto simp: observes_def erase_def call_def logged_def split: prod.splits sum.splits)

lemma observes_bind:
  assumes p: "observes p' p" and f: "\<And>x. observes (f' x) (f x)"
  shows "observes (py_bind p' f') (py_bind p f)"
  unfolding observes_def
proof (intro allI)
  fix s log
  obtain r s1 log1 where p1: "p' (s, log) = (r, s1, log1)"
    by (metis prod_cases3)
  with p have p0: "p s = (r, s1)"
    unfolding observes_def erase_def by (metis fst_conv snd_conv)
  show "erase (py_bind p' f' (s, log)) = py_bind p f s"
  proof (cases r)
    case (Inl e)
    with p1 p0 show ?thesis
      by (simp add: py_bind_def erase_def)
  next
    case (Inr x)
    with f [of x] have "erase (f' x (s1, log1)) = f x s1"
      unfolding observes_def by blast
    with Inr p1 p0 show ?thesis
      by (simp add: py_bind_def)
  qed
qed

lemma observes_Fluids_fwd:
  "observes (PROSE_Fluids_fwd (traced m) d it ot si pm) (PROSE_Fluids_fwd m d it ot si pm)"
  unfolding PROSE_Fluids_fwd_def Let_def traced_simps
  by (intro observes_bind observes_tensor_size observes_unpack observes_size_at
      observes_call_logged observes_return)

lemma observes_1DPDE_fwd:
  "observes (PROSE_1DPDE_fwd (traced m) d it ot si pm) (PROSE_1DPDE_fwd m d it ot si pm)"
  unfolding PROSE_1DPDE_fwd_def Let_def traced_simps split_def
  by (intro observes_bind observes_tensor_size observes_unpack observes_size_at
      observes_call_logged observes_return)

lemma traced_Fluids_fwd_Inr:
  "PROSE_Fluids_fwd (traced m) d it ot si pm (s, log) = (Inr r, s', log') \<longleftrightarrow>
     (\<exists>x emb s1 enc s2 q s3 dec s4 out.
        d = PyTensor x \<and> length (shape x) = 5 \<and>
        embedder_encode m x it s = (Inr emb, s1) \<and> 1 < length (shape emb) \<and>
        data_encoder m emb s1 = (Inr enc, s2) \<and>
        get_query_emb m ot s2 = (Inr q, s3) \<and>
        data_decoder m enc q PyNone s3 = (Inr dec, s4) \<and>
        embedder_decode m dec s4 = (Inr out, s') \<and> r = PyTensor out \<and>
        log' = log @ [(Embed, [PyTensor x, it]), (Encode_data, [PyTensor emb]),
                      (Build_queries, [ot]), (Decode, [PyTensor enc, PyTensor q, PyNone]),
                      (Inverse_embed, [PyTensor dec])])"
  apply (simp add: Fluids_fwd_Inr traced_simps logged_eq)
  apply (rule iffI)
   apply (elim exE conjE)
   apply simp
  apply (elim exE conjE)
  apply simp
  done

subsection \<open>Keyword calls and traced runs\<close>

lemma traced_1DPDE_fwd_Inr:
  "PROSE_1DPDE_fwd (traced m) d it ot si pm (s, log) = (Inr r, s', log') \<longleftrightarrow>
     (\<exists>x emb s1 enc s2 sym s3 fused fused_mask s4 q s5 dec s6 out.
        d = PyTensor x \<and> length (shape x) = 4 \<and>
        embedder_encode m x it s = (Inr emb, s1) \<and> 1 < length (shape emb) \<and>
        data_encoder m emb s1 = (Inr enc, s2) \<and>
        symbol_encoder m si pm s2 = (Inr sym, s3) \<and>
        fusion m enc sym PyNone pm s3 = (Inr (fused, fused_mask), s4) \<and>
        get_query_emb m ot s4 = (Inr q, s5) \<and>
        data_decoder m fused q fused_mask s5 = (Inr dec, s6) \<and>
        embedder_decode m dec s6 = (Inr out, s') \<and>
        r = PyDict [(''data_embeded'', emb), (''data_encoded'', enc), (''symbol_encoded'', sym),
                    (''fused'', fused), (''data_output'', out)] \<and>
        log' = log @ [(Embed, [PyTensor x, it]), (Encode_data, [PyTensor emb]),
                      (Encode_symbol, [si, pm]),
                      (Fuse, [PyTensor enc, PyTensor sym, PyNone, pm]),
                      (Build_queries, [ot]),
                      (Decode, [PyTensor fused, PyTensor q, fused_mask]),
                      (Inverse_embed, [PyTensor dec])])"
  apply (simp add: PDE_fwd_Inr traced_simps logged_eq)
  apply (rule iffI)
   apply (elim exE conjE)
   apply simp
  apply (elim exE conjE)
  apply simp
  done


lemma call_kwargs_four:
  "call_kwargs f [(''data_input'', d), (''input_times'', it), (''output_times'', ot),
                  (''symbol_input'', si)] = f d it ot si PyNone"
  by (simp add: call_kwargs_def fwd_parameters_def)

lemma call_kwargs_five:
  "call_kwargs f [(''data_input'', d), (''input_times'', it), (''output_times'', ot),
                  (''symbol_input'', si), (''symbol_padding_mask'', pm)] = f d it ot si pm"
  by (simp add: call_kwargs_def fwd_parameters_def)

lemma observed_run:
  assumes "observes p' p" and "p s = (r, s')"
  shows "\<exists>log. p' (s, []) = (r, s', log)"
proof -
  obtain r1 s1 log1 where a: "p' (s, []) = (r1, s1, log1)"
    by (metis prod_cases3)
  with assms have "(r1, s1) = (r, s')"
    unfolding observes_def erase_def by (metis fst_conv snd_conv)
  with a show ?thesis by simp
qed

lemma emits_run:
  assumes "emits p stages" and "p (s, []) = (r, s', log)"
  shows "prefix (map fst log) stages \<and> (isl r \<or> map fst log = stages)"
  using assms unfolding emits_def by fastforce

lemma find_append_expected:
  "\<not> P k \<Longrightarrow> find P (xs @ [k]) = find P xs"
  by (induction xs) auto

lemma call_kwargs_default:
  assumes "map_of kwargs ''symbol_padding_mask'' = None"
  shows "call_kwargs f (kwargs @ [(''symbol_padding_mask'', PyNone)]) = call_kwargs f kwargs"
proof -
  have keys: "find (\<lambda>k. k \<notin> set fwd_parameters) (map fst (kwargs @ [(''symbol_padding_mask'', PyNone)]))
      = find (\<lambda>k. k \<notin> set fwd_parameters) (map fst kwargs)"
    by (simp add: find_append_expected fwd_parameters_def)
  have look: "map_of (kwargs @ [(''symbol_padding_mask'', PyNone)])
      = (\<lambda>k. if k = ''symbol_padding_mask'' then Some PyNone else map_of kwargs k)"
    using assms by (auto simp: fun_eq_iff map_add_def split: option.splits)
  have filt: "filter (\<lambda>p. map_of (kwargs @ [(''symbol_padding_mask'', PyNone)]) p = None) fwd_required
      = filter (\<lambda>p. map_of kwargs p = None) fwd_required"
    by (simp add: look fwd_required_def)
  have l4: "map_of (kwargs @ [(''symbol_padding_mask'', PyNone)]) ''data_input''
        = map_of kwargs ''data_input''"
      "map_of (kwargs @ [(''symbol_padding_mask'', PyNone)]) ''input_times''
        = map_of kwargs ''input_times''"
      "map_of (kwargs @ [(''symbol_padding_mask'', PyNone)]) ''output_times''
        = map_of kwargs ''output_times''"
      "map_of (kwargs @ [(''symbol_padding_mask'', PyNone)]) ''symbol_input''
        = map_of kwargs ''symbol_input''"
      "map_of (kwargs @ [(''symbol_padding_mask'', PyNone)]) ''symbol_padding_mask''
        = Some PyNone"
    unfolding look by simp_all
  show ?thesis
    unfolding call_kwargs_def keys filt l4 assms option.case
    by (rule refl)
qed

subsection \<open>The shape contract\<close>

lemma contract_embed:
  "shape_contract c m \<Longrightarrow> embedder_encode m x it s = (Inr emb, s') \<Longrightarrow>
     shape x = bs # il # grid c @ [channels c] \<Longrightarrow>
     shape emb = [bs, il * patch_num c ^ length (grid c), hidden_dim c]"
  unfolding shape_contract_def by meson

lemma contract_encoder:
  "shape_contract c m \<Longrightarrow> data_encoder m x s = (Inr y, s') \<Longrightarrow> shape y = shape x"
  unfolding shape_contract_def by meson

lemma contract_symbol:
  "shape_contract c m \<Longrightarrow> symbol_encoder m (PyTensor x) k s = (Inr y, s') \<Longrightarrow>
     shape x = [bs, sl] \<Longrightarrow> shape y = [bs, sl, hidden_dim c]"
  unfolding shape_contract_def by meson

lemma contract_fusion:
  "shape_contract c m \<Longrightarrow> fusion m x0 x1 k0 k1 s = (Inr (fused, fused_mask), s') \<Longrightarrow>
     shape x0 = [bs, l0, d] \<Longrightarrow> shape x1 = [bs, l1, d] \<Longrightarrow> shape fused = [bs, l0 + l1, d]"
  unfolding shape_contract_def by meson

lemma contract_query:
  "shape_contract c m \<Longrightarrow> get_query_emb m (PyTensor t) s = (Inr q, s') \<Longrightarrow>
     shape t = [bs, ol, 1] \<Longrightarrow> shape q = [bs, ol * query_patches c, hidden_dim c]"
  unfolding shape_contract_def by meson

lemma contract_decoder:
  "shape_contract c m \<Longrightarrow> data_decoder m src q k s = (Inr y, s') \<Longrightarrow> shape y = shape q"
  unfolding shape_contract_def by meson

lemma contract_decode:
  "shape_contract c m \<Longrightarrow> embedder_decode m y s = (Inr out, s') \<Longrightarrow>
     shape y = [bs, ol * query_patches c, hidden_dim c] \<Longrightarrow>
     shape out = bs # ol # grid c @ [channels c]"
  unfolding shape_contract_def by meson

lemma spec_modules_contract:
  "0 < query_patches c \<Longrightarrow> shape_contract c (spec_modules c)"
  unfolding shape_contract_def spec_modules_def
  by (auto split: list.splits if_splits pyval.splits)

subsection \<open>An inert symbol path, and the rank of the data input\<close>

lemma inert_modules_inert: "inert_symbol_path (inert_modules c)"
  by (simp add: inert_symbol_path_def inert_modules_def)

lemma PDE_fwd_inert:
  assumes i: "inert_symbol_path m" and rank: "length (shape x) = 4"
  shows "apfst (map_sum id data_output_of) (PROSE_1DPDE_fwd m (PyTensor x) it ot si pm s)
       = apfst (map_sum id Some) (PROSE_Fluids_steps m x it ot s)"
proof -
  define sym where "sym = (\<lambda>s. SOME y. symbol_encoder m si pm s = (Inr y, s))"
  have se: "symbol_encoder m si pm s = (Inr (sym s), s)" for s
    unfolding sym_def using i [unfolded inert_symbol_path_def]
    by (metis (mono_tags, lifting) someI_ex)
  have fu: "fusion m x0 x1 k0 k1 s = (Inr (x0, PyNone), s)" for x0 x1 k0 k1 s
    using i unfolding inert_symbol_path_def by blast
  show ?thesis
    unfolding PROSE_1DPDE_fwd_def PROSE_Fluids_steps_def Let_def
    by (simp add: py_bind_def py_return_def py_raise_def call_def tensor_size_def unpack_def
        size_at_def rank se fu data_output_of_def split: prod.splits sum.splits)
qed

lemma Fluids_fwd_rank:
  "length (shape x) \<noteq> 5 \<Longrightarrow>
     PROSE_Fluids_fwd m (PyTensor x) it ot si pm s = (Inl (ValueError 5 (length (shape x))), s)"
  by (simp add: PROSE_Fluids_fwd_def py_bind_def py_return_def py_raise_def tensor_size_def
      unpack_def)

lemma PDE_fwd_rank:
  "length (shape x) \<noteq> 4 \<Longrightarrow>
     PROSE_1DPDE_fwd m (PyTensor x) it ot si pm s = (Inl (ValueError 4 (length (shape x))), s)"
  by (simp add: PROSE_1DPDE_fwd_def py_bind_def py_return_def py_raise_def tensor_size_def
      unpack_def)

subsection \<open>The sample calls, evaluated\<close>

lemmas run_defs =
  py_bind_def py_return_def py_raise_def call_def tensor_size_def unpack_def size_at_def
  spec_modules_def inert_modules_def logged_def traced_def Let_def
  fluids_config_def pde_config_def fluids_field_def pde_field_def time_stamps_def tokens_def
  padding_def AList.update.simps

lemma sample_Fluids_run:
  "PROSE_Fluids_fwd (spec_modules fluids_config) fluids_field (time_stamps 3) (time_stamps 2) si pm 0
     = (Inr (PyTensor (Tensor [1, 2, 4, 4, 3] ())), 5)"
  by (simp add: PROSE_Fluids_fwd_def run_defs)

lemma sample_1DPDE_run:
  "PROSE_1DPDE_fwd (spec_modules pde_config) pde_field (time_stamps 3) (time_stamps 2) tokens padding 0
     = (Inr (PyDict [(''data_embeded'', Tensor [1, 6, 8] ()), (''data_encoded'', Tensor [1, 6, 8] ()),
                     (''symbol_encoded'', Tensor [1, 5, 8] ()), (''fused'', Tensor [1, 11, 8] ()),
                     (''data_output'', Tensor [1, 2, 4, 3] ())]), 7)"
  by (simp add: PROSE_1DPDE_fwd_def run_defs)

lemma sample_Fluids_traced_run:
  "PROSE_Fluids_fwd (traced (spec_modules fluids_config)) fluids_field (time_stamps 3) (time_stamps 2) si pm
       (0, [])
     = (Inr (PyTensor (Tensor [1, 2, 4, 4, 3] ())), 5,
        [(Embed, [fluids_field, time_stamps 3]), (Encode_data, [PyTensor (Tensor [1, 12, 8] ())]),
         (Build_queries, [time_stamps 2]),
         (Decode, [PyTensor (Tensor [1, 12, 8] ()), PyTensor (Tensor [1, 8, 8] ()), PyNone]),
         (Inverse_embed, [PyTensor (Tensor [1, 8, 8] ())])])"
  by (simp add: PROSE_Fluids_fwd_def run_defs)

lemma sample_1DPDE_traced_run:
  "PROSE_1DPDE_fwd (traced (spec_modules pde_config)) pde_field (time_stamps 3) (time_stamps 2) tokens padding
       (0, [])
     = (Inr (PyDict [(''data_embeded'', Tensor [1, 6, 8] ()), (''data_encoded'', Tensor [1, 6, 8] ()),
                     (''symbol_encoded'', Tensor [1, 5, 8] ()), (''fused'', Tensor [1, 11, 8] ()),
                     (''data_output'', Tensor [1, 2, 4, 3] ())]), 7,
        [(Embed, [pde_field, time_stamps 3]), (Encode_data, [PyTensor (Tensor [1, 6, 8] ())]),
         (Encode_symbol, [tokens, padding]),
         (Fuse, [PyTensor (Tensor [1, 6, 8] ()), PyTensor (Tensor [1, 5, 8] ()), PyNone, padding]),
         (Build_queries, [time_stamps 2]),
         (Decode, [PyTensor (Tensor [1, 11, 8] ()), PyTensor (Tensor [1, 4, 8] ()),
                   PyTensor (Tensor [1, 11] ())]),
         (Inverse_embed, [PyTensor (Tensor [1, 4, 8] ())])])"
  by (simp add: PROSE_1DPDE_fwd_def run_defs)


lemma sample_contracts:
  "shape_contract fluids_config (spec_modules fluids_config)"
  "shape_contract pde_config (spec_modules pde_config)"
  by (rule spec_modules_contract, simp add: fluids_config_def pde_config_def)+

section \<open>The two forward modes\<close>

text \<open>
  Claim C1. For both wrappers and every keyword dictionary, \<open>forward\<close> with mode
  \<open>"generate"\<close> returns (or raises) exactly what \<open>forward\<close> with mode \<open>"fwd"\<close>
  does on the same inputs and the same module state, and leaves the same state:
  \<open>generate\<close> hands all its keyword arguments to \<open>fwd\<close>.
\<close>

theorem fwd_generate_identical:
  "PROSE_Fluids_forward m ''generate'' kwargs s = PROSE_Fluids_forward m ''fwd'' kwargs s
   \<and> PROSE_1DPDE_forward m ''generate'' kwargs s = PROSE_1DPDE_forward m ''fwd'' kwargs s
   \<and> PROSE_Fluids_generate m kwargs = call_kwargs (PROSE_Fluids_fwd m) kwargs
   \<and> PROSE_1DPDE_generate m kwargs = call_kwargs (PROSE_1DPDE_fwd m) kwargs"
  by (simp add: PROSE_Fluids_forward_def PROSE_1DPDE_forward_def
      PROSE_Fluids_generate_def PROSE_1DPDE_generate_def)

text \<open>
  Claim C2. For both wrappers, \<open>forward\<close> raises its \<open>Exception\<close> if and only if the
  mode is neither \<open>"fwd"\<close> nor \<open>"generate"\<close>, and the message is
  \<open>"Unknown mode: "\<close> followed by the mode. For the two recognised modes the dispatch
  raises nothing of its own: the outcome is the outcome of the keyword call of
  \<open>fwd\<close>, whose exceptions are never this one.
\<close>

theorem unknown_mode_raises:
  "(fst (PROSE_Fluids_forward m mode kwargs s) = Inl (Exception msg)
      \<longleftrightarrow> mode \<noteq> ''fwd'' \<and> mode \<noteq> ''generate'' \<and> msg = ''Unknown mode: '' @ mode)
   \<and> (fst (PROSE_1DPDE_forward m mode kwargs s) = Inl (Exception msg)
      \<longleftrightarrow> mode \<noteq> ''fwd'' \<and> mode \<noteq> ''generate'' \<and> msg = ''Unknown mode: '' @ mode)
   \<and> PROSE_Fluids_forward m mode kwargs s =
       (if mode \<in> {''fwd'', ''generate''} then call_kwargs (PROSE_Fluids_fwd m) kwargs s
        else (Inl (Exception (''Unknown mode: '' @ mode)), s))
   \<and> PROSE_1DPDE_forward m mode kwargs s =
       (if mode \<in> {''fwd'', ''generate''} then call_kwargs (PROSE_1DPDE_fwd m) kwargs s
        else (Inl (Exception (''Unknown mode: '' @ mode)), s))"
proof -
  have a: "fst (PROSE_Fluids_forward m mode kwargs s) = Inl (Exception msg)
      \<longleftrightarrow> mode \<noteq> ''fwd'' \<and> mode \<noteq> ''generate'' \<and> msg = ''Unknown mode: '' @ mode"
    using Fluids_kw_no_Exception [of m kwargs s msg]
    by (auto simp: Fluids_forward_cases)
  have b: "fst (PROSE_1DPDE_forward m mode kwargs s) = Inl (Exception msg)
      \<longleftrightarrow> mode \<noteq> ''fwd'' \<and> mode \<noteq> ''generate'' \<and> msg = ''Unknown mode: '' @ mode"
    using PDE_kw_no_Exception [of m kwargs s msg]
    by (auto simp: PDE_forward_cases)
  show ?thesis
    using a b Fluids_forward_cases [of m mode kwargs s] PDE_forward_cases [of m mode kwargs s]
    by blast
qed

section \<open>What \<open>fwd\<close> returns\<close>



text \<open>
  Claim C6. The result of \<open>PROSE_Fluids.fwd\<close> does not depend on \<open>symbol_input\<close>
  and \<open>symbol_padding_mask\<close>: two calls that agree on the other three arguments
  return the same from the same module state, whether the arguments are passed by
  position or through the keyword dictionary; nor does it depend on what a symbol
  encoder or a fusion block would compute, since neither is called.
\<close>

theorem symbol_arguments_ignored:
  "PROSE_Fluids_fwd m d it ot si pm = PROSE_Fluids_fwd m d it ot si' pm'
   \<and> PROSE_Fluids_fwd (m\<lparr>symbol_encoder := se, fusion := fu\<rparr>) = PROSE_Fluids_fwd m
   \<and> call_kwargs (PROSE_Fluids_fwd m)
        (AList.update ''symbol_input'' si (AList.update ''symbol_padding_mask'' pm kwargs))
     = call_kwargs (PROSE_Fluids_fwd m)
        (AList.update ''symbol_input'' si' (AList.update ''symbol_padding_mask'' pm' kwargs))"
proof -
  have a: "PROSE_Fluids_fwd m d it ot si pm = PROSE_Fluids_fwd m d it ot si' pm'"
    for d it ot si pm si' pm'
    by (simp add: PROSE_Fluids_fwd_def)
  have b: "PROSE_Fluids_fwd (m\<lparr>symbol_encoder := se, fusion := fu\<rparr>) = PROSE_Fluids_fwd m"
    by (simp add: PROSE_Fluids_fwd_def fun_eq_iff)
  have keys: "map fst (AList.update ''symbol_input'' si (AList.update ''symbol_padding_mask'' pm kwargs))
     = map fst (AList.update ''symbol_input'' si' (AList.update ''symbol_padding_mask'' pm' kwargs))"
    by (simp add: update_keys)
  have c: "call_kwargs (PROSE_Fluids_fwd m)
        (AList.update ''symbol_input'' si (AList.update ''symbol_padding_mask'' pm kwargs))
     = call_kwargs (PROSE_Fluids_fwd m)
        (AList.update ''symbol_input'' si' (AList.update ''symbol_padding_mask'' pm' kwargs))"
    unfolding call_kwargs_def keys
    by (auto simp: update_conv' fwd_required_def a [of _ _ _ si _ si'] split: option.splits)
  show ?thesis
    using a b c by blast
qed

section \<open>The order of the stages\<close>

text \<open>
  Claim C7. Every pass of \<open>fwd\<close> calls the sub-modules in the order of the
  specification: embed, encode the data, in the 1D variant encode the symbols and fuse,
  build the decoder queries, decode, inverse-embed. A pass that raises has made a prefix
  of these calls; a pass that returns has made all of them, each on the arguments the
  claim names: the data input with the input times, the embedding, the symbol input with
  its padding mask, the two encodings with no mask for the data and the padding mask for
  the symbols, the output times, the fused context with the queries and the fused mask,
  the decoder's output. The traced run is the run itself with the log added.
\<close>

theorem stage_order:
  "(PROSE_Fluids_fwd m d it ot si pm s = (r, s') \<longrightarrow>
      (\<exists>log. PROSE_Fluids_fwd (traced m) d it ot si pm (s, []) = (r, s', log) \<and>
         prefix (map fst log) (spec_order False) \<and>
         (isl r \<or> map fst log = spec_order False)))
   \<and> (PROSE_1DPDE_fwd m d it ot si pm s = (r, s') \<longrightarrow>
      (\<exists>log. PROSE_1DPDE_fwd (traced m) d it ot si pm (s, []) = (r, s', log) \<and>
         prefix (map fst log) (spec_order True) \<and>
         (isl r \<or> map fst log = spec_order True)))
   \<and> (PROSE_Fluids_fwd (traced m) d it ot si pm (s, []) = (Inr v, s', log) \<longrightarrow>
      (\<exists>x emb enc q dec.
         d = PyTensor x \<and>
         log = [(Embed, [PyTensor x, it]), (Encode_data, [PyTensor emb]),
                (Build_queries, [ot]), (Decode, [PyTensor enc, PyTensor q, PyNone]),
                (Inverse_embed, [PyTensor dec])] \<and>
         (\<exists>s1 s2 s3 s4 out.
            embedder_encode m x it s = (Inr emb, s1) \<and>
            data_encoder m emb s1 = (Inr enc, s2) \<and>
            get_query_emb m ot s2 = (Inr q, s3) \<and>
            data_decoder m enc q PyNone s3 = (Inr dec, s4) \<and>
            embedder_decode m dec s4 = (Inr out, s') \<and> v = PyTensor out)))
   \<and> (PROSE_1DPDE_fwd (traced m) d it ot si pm (s, []) = (Inr v, s', log) \<longrightarrow>
      (\<exists>x emb enc sym fused fused_mask q dec.
         d = PyTensor x \<and>
         log = [(Embed, [PyTensor x, it]), (Encode_data, [PyTensor emb]),
                (Encode_symbol, [si, pm]),
                (Fuse, [PyTensor enc, PyTensor sym, PyNone, pm]),
                (Build_queries, [ot]),
                (Decode, [PyTensor fused, PyTensor q, fused_mask]),
                (Inverse_embed, [PyTensor dec])] \<and>
         (\<exists>s1 s2 s3 s4 s5 s6 out.
            embedder_encode m x it s = (Inr emb, s1) \<and>
            data_encoder m emb s1 = (Inr enc, s2) \<and>
            symbol_encoder m si pm s2 = (Inr sym, s3) \<and>
            fusion m enc sym PyNone pm s3 = (Inr (fused, fused_mask), s4) \<and>
            get_query_emb m ot s4 = (Inr q, s5) \<and>
            data_decoder m fused q fused_mask s5 = (Inr dec, s6) \<and>
            embedder_decode m dec s6 = (Inr out, s') \<and> data_output_of v = Some out)))"
proof (intro conjI impI)
  assume a: "PROSE_Fluids_fwd m d it ot si pm s = (r, s')"
  from observed_run [OF observes_Fluids_fwd a]
  obtain log where l: "PROSE_Fluids_fwd (traced m) d it ot si pm (s, []) = (r, s', log)" ..
  show "\<exists>log. PROSE_Fluids_fwd (traced m) d it ot si pm (s, []) = (r, s', log) \<and>
         prefix (map fst log) (spec_order False) \<and>
         (isl r \<or> map fst log = spec_order False)"
    using emits_run [OF emits_Fluids_fwd l] l by (intro exI [of _ log]) simp
next
  assume a: "PROSE_1DPDE_fwd m d it ot si pm s = (r, s')"
  from observed_run [OF observes_1DPDE_fwd a]
  obtain log where l: "PROSE_1DPDE_fwd (traced m) d it ot si pm (s, []) = (r, s', log)" ..
  show "\<exists>log. PROSE_1DPDE_fwd (traced m) d it ot si pm (s, []) = (r, s', log) \<and>
         prefix (map fst log) (spec_order True) \<and>
         (isl r \<or> map fst log = spec_order True)"
    using emits_run [OF emits_1DPDE_fwd l] l by (intro exI [of _ log]) simp
next
  assume "PROSE_Fluids_fwd (traced m) d it ot si pm (s, []) = (Inr v, s', log)"
  then show "\<exists>x emb enc q dec.
         d = PyTensor x \<and>
         log = [(Embed, [PyTensor x, it]), (Encode_data, [PyTensor emb]),
                (Build_queries, [ot]), (Decode, [PyTensor enc, PyTensor q, PyNone]),
                (Inverse_embed, [PyTensor dec])] \<and>
         (\<exists>s1 s2 s3 s4 out.
            embedder_encode m x it s = (Inr emb, s1) \<and>
            data_encoder m emb s1 = (Inr enc, s2) \<and>
            get_query_emb m ot s2 = (Inr q, s3) \<and>
            data_decoder m enc q PyNone s3 = (Inr dec, s4) \<and>
            embedder_decode m dec s4 = (Inr out, s') \<and> v = PyTensor out)"
    unfolding traced_Fluids_fwd_Inr append_Nil
    apply (elim exE conjE)
    apply (intro exI conjI)
           apply assumption+
    done
next
  assume "PROSE_1DPDE_fwd (traced m) d it ot si pm (s, []) = (Inr v, s', log)"
  then show "\<exists>x emb enc sym fused fused_mask q dec.
         d = PyTensor x \<and>
         log = [(Embed, [PyTensor x, it]), (Encode_data, [PyTensor emb]),
                (Encode_symbol, [si, pm]),
                (Fuse, [PyTensor enc, PyTensor sym, PyNone, pm]),
                (Build_queries, [ot]),
                (Decode, [PyTensor fused, PyTensor q, fused_mask]),
                (Inverse_embed, [PyTensor dec])] \<and>
         (\<exists>s1 s2 s3 s4 s5 s6 out.
            embedder_encode m x it s = (Inr emb, s1) \<and>
            data_encoder m emb s1 = (Inr enc, s2) \<and>
            symbol_encoder m si pm s2 = (Inr sym, s3) \<and>
            fusion m enc sym PyNone pm s3 = (Inr (fused, fused_mask), s4) \<and>
            get_query_emb m ot s4 = (Inr q, s5) \<and>
            data_decoder m fused q fused_mask s5 = (Inr dec, s6) \<and>
            embedder_decode m dec s6 = (Inr out, s') \<and> data_output_of v = Some out)"
    unfolding traced_1DPDE_fwd_Inr append_Nil
    apply (elim exE conjE)
    apply (intro exI conjI)
             apply assumption+
    apply (simp add: data_output_of_def)
    done
qed

theorem stage_order_witness:
  "(PROSE_Fluids_fwd (spec_modules fluids_config) fluids_field (time_stamps 3) (time_stamps 2)
       tokens padding 0 = (Inr (PyTensor (Tensor [1, 2, 4, 4, 3] ())), 5) \<and>
    (\<exists>log. PROSE_Fluids_fwd (traced (spec_modules fluids_config)) fluids_field (time_stamps 3)
              (time_stamps 2) tokens padding (0, [])
              = (Inr (PyTensor (Tensor [1, 2, 4, 4, 3] ())), 5, log) \<and>
           map fst log = [Embed, Encode_data, Build_queries, Decode, Inverse_embed]))
   \<and> (\<exists>v. PROSE_1DPDE_fwd (spec_modules pde_config) pde_field (time_stamps 3) (time_stamps 2)
       tokens padding 0 = (Inr v, 7) \<and>
    (\<exists>log. PROSE_1DPDE_fwd (traced (spec_modules pde_config)) pde_field (time_stamps 3)
              (time_stamps 2) tokens padding (0, []) = (Inr v, 7, log) \<and>
           map fst log =
             [Embed, Encode_data, Encode_symbol, Fuse, Build_queries, Decode, Inverse_embed]))"
proof -
  let ?v = "PyTensor (Tensor [1, 2, 4, 4, 3] ())"
  let ?r = "PyDict [(''data_embeded'', Tensor [1, 6, 8] ()), (''data_encoded'', Tensor [1, 6, 8] ()),
                     (''symbol_encoded'', Tensor [1, 5, 8] ()), (''fused'', Tensor [1, 11, 8] ()),
                     (''data_output'', Tensor [1, 2, 4, 3] ())]"
  have h1: "PROSE_Fluids_fwd (spec_modules fluids_config) fluids_field (time_stamps 3)
      (time_stamps 2) tokens padding 0 = (Inr ?v, 5)"
    by (rule sample_Fluids_run)
  have h2: "PROSE_1DPDE_fwd (spec_modules pde_config) pde_field (time_stamps 3) (time_stamps 2)
      tokens padding 0 = (Inr ?r, 7)"
    by (rule sample_1DPDE_run)
  from stage_order [where m = "spec_modules fluids_config" and s = 0 and r = "Inr ?v"
      and s' = 5, THEN conjunct1, THEN mp, OF h1]
  obtain log1 where l1: "PROSE_Fluids_fwd (traced (spec_modules fluids_config)) fluids_field
        (time_stamps 3) (time_stamps 2) tokens padding (0, []) = (Inr ?v, 5, log1)"
      "isl (Inr ?v :: unit error + unit pyval) \<or> map fst log1 = spec_order False"
    by (elim exE conjE)
  from stage_order [where m = "spec_modules pde_config" and s = 0 and r = "Inr ?r"
      and s' = 7, THEN conjunct2, THEN conjunct1, THEN mp, OF h2]
  obtain log2 where l2: "PROSE_1DPDE_fwd (traced (spec_modules pde_config)) pde_field
        (time_stamps 3) (time_stamps 2) tokens padding (0, []) = (Inr ?r, 7, log2)"
      "isl (Inr ?r :: unit error + unit pyval) \<or> map fst log2 = spec_order True"
    by (elim exE conjE)
  from l1(2) have o1: "map fst log1 = [Embed, Encode_data, Build_queries, Decode, Inverse_embed]"
    by (simp add: spec_order_def)
  from l2(2) have o2: "map fst log2 =
      [Embed, Encode_data, Encode_symbol, Fuse, Build_queries, Decode, Inverse_embed]"
    by (simp add: spec_order_def)
  show ?thesis
    apply (intro conjI)
      apply (rule h1)
     apply (rule exI [of _ log1], rule conjI [OF l1(1) o1])
    apply (rule exI [of _ ?r], rule conjI [OF h2])
    apply (rule exI [of _ log2], rule conjI [OF l2(1) o2])
    done
qed

section \<open>The symbol arguments\<close>

text \<open>
  Claim C9. In both wrappers \<open>symbol_padding_mask\<close> is optional: a keyword call of
  \<open>fwd\<close> without it is the call with \<open>None\<close> for it, and a supplied mask is bound
  as it is. The 1D variant hands the mask, unchanged and together with the unchanged
  symbol tokens, to the symbol encoder as \<open>src_key_padding_mask\<close> and to the fusion
  as \<open>key_padding_mask1\<close> (with \<open>None\<close> for the data stream), so a mask that marks
  padded tokens with \<open>True\<close> and is as long as the token sequence arrives there as
  such; the 2D variant does not use it.
\<close>

theorem padding_mask_optional:
  "call_kwargs (PROSE_Fluids_fwd m)
      [(''data_input'', d), (''input_times'', it), (''output_times'', ot), (''symbol_input'', si)]
     = PROSE_Fluids_fwd m d it ot si PyNone
   \<and> call_kwargs (PROSE_1DPDE_fwd m)
      [(''data_input'', d), (''input_times'', it), (''output_times'', ot), (''symbol_input'', si)]
     = PROSE_1DPDE_fwd m d it ot si PyNone
   \<and> call_kwargs (PROSE_Fluids_fwd m)
      [(''data_input'', d), (''input_times'', it), (''output_times'', ot), (''symbol_input'', si),
       (''symbol_padding_mask'', pm)]
     = PROSE_Fluids_fwd m d it ot si pm
   \<and> call_kwargs (PROSE_1DPDE_fwd m)
      [(''data_input'', d), (''input_times'', it), (''output_times'', ot), (''symbol_input'', si),
       (''symbol_padding_mask'', pm)]
     = PROSE_1DPDE_fwd m d it ot si pm
   \<and> (map_of kwargs ''symbol_padding_mask'' = None \<longrightarrow>
        call_kwargs (PROSE_Fluids_fwd m) kwargs
          = call_kwargs (PROSE_Fluids_fwd m) (kwargs @ [(''symbol_padding_mask'', PyNone)]) \<and>
        call_kwargs (PROSE_1DPDE_fwd m) kwargs
          = call_kwargs (PROSE_1DPDE_fwd m) (kwargs @ [(''symbol_padding_mask'', PyNone)]))
   \<and> (PROSE_1DPDE_fwd (traced m) d it ot si pm (s, []) = (Inr v, s', log) \<longrightarrow>
        map_of log Encode_symbol = Some [si, pm] \<and>
        (\<exists>enc sym. map_of log Fuse = Some [PyTensor enc, PyTensor sym, PyNone, pm]))
   \<and> PROSE_Fluids_fwd m d it ot si pm = PROSE_Fluids_fwd m d it ot si PyNone"
proof -
  have t: "map_of log Encode_symbol = Some [si, pm] \<and>
        (\<exists>enc sym. map_of log Fuse = Some [PyTensor enc, PyTensor sym, PyNone, pm])"
    if "PROSE_1DPDE_fwd (traced m) d it ot si pm (s, []) = (Inr v, s', log)"
    using that unfolding traced_1DPDE_fwd_Inr append_Nil
    by (elim exE conjE) simp
  have i: "PROSE_Fluids_fwd m d it ot si pm = PROSE_Fluids_fwd m d it ot si PyNone"
    by (simp add: PROSE_Fluids_fwd_def)
  show ?thesis
    by (intro conjI impI call_kwargs_four call_kwargs_five call_kwargs_default [symmetric] t i)
qed

theorem padding_mask_optional_witness:
  "map_of [(''data_input'', pde_field), (''input_times'', time_stamps 3),
           (''output_times'', time_stamps 2), (''symbol_input'', tokens)]
       ''symbol_padding_mask'' = None
   \<and> call_kwargs (PROSE_1DPDE_fwd (spec_modules pde_config))
        [(''data_input'', pde_field), (''input_times'', time_stamps 3),
         (''output_times'', time_stamps 2), (''symbol_input'', tokens)]
     = call_kwargs (PROSE_1DPDE_fwd (spec_modules pde_config))
        ([(''data_input'', pde_field), (''input_times'', time_stamps 3),
          (''output_times'', time_stamps 2), (''symbol_input'', tokens)]
           @ [(''symbol_padding_mask'', PyNone)])
   \<and> (\<exists>v s' log.
        PROSE_1DPDE_fwd (traced (spec_modules pde_config)) pde_field (time_stamps 3)
          (time_stamps 2) tokens padding (0, []) = (Inr v, s', log) \<and>
        map_of log Encode_symbol = Some [tokens, padding] \<and>
        (\<exists>enc sym. map_of log Fuse = Some [PyTensor enc, PyTensor sym, PyNone, padding]))"
proof -
  let ?kw = "[(''data_input'', pde_field), (''input_times'', time_stamps 3),
           (''output_times'', time_stamps 2), (''symbol_input'', tokens)]"
  have h1: "map_of ?kw ''symbol_padding_mask'' = None"
    by simp
  note c1 = padding_mask_optional [where m = "spec_modules pde_config" and kwargs = ?kw,
      THEN conjunct2, THEN conjunct2, THEN conjunct2, THEN conjunct2, THEN conjunct1,
      THEN mp, OF h1, THEN conjunct2]
  note h2 = sample_1DPDE_traced_run
  note c2 = padding_mask_optional [where m = "spec_modules pde_config" and s = 0,
      THEN conjunct2, THEN conjunct2, THEN conjunct2, THEN conjunct2, THEN conjunct2,
      THEN conjunct1, THEN mp, OF h2]
  show ?thesis
    apply (intro conjI)
      apply (rule h1)
     apply (rule c1)
    apply (intro exI)
    apply (rule conjI [OF h2 c2])
    done
qed

text \<open>
  Claim C10. A keyword call of \<open>PROSE_Fluids.fwd\<close>, directly or through
  \<open>forward\<close> in mode \<open>"fwd"\<close> or \<open>"generate"\<close>, that supplies no
  \<open>symbol_input\<close> raises a \<open>TypeError\<close> and calls no sub-module: the parameter is
  required and has no default, although the 2D variant computes the same whatever is
  passed for it.
\<close>

theorem symbol_input_required:
  "(map_of kwargs ''symbol_input'' = None \<longrightarrow>
      (\<exists>a. call_kwargs (PROSE_Fluids_fwd m) kwargs s = (Inl (TypeError a), s) \<and>
           (case a of Missing ms \<Rightarrow> ''symbol_input'' \<in> set ms
            | Unexpected k \<Rightarrow> k \<notin> set fwd_parameters)))
   \<and> (map_of kwargs ''symbol_input'' = None \<and> mode \<in> {''fwd'', ''generate''} \<longrightarrow>
      (\<exists>a. PROSE_Fluids_forward m mode kwargs s = (Inl (TypeError a), s)))
   \<and> call_kwargs (PROSE_Fluids_fwd m)
        [(''data_input'', d), (''input_times'', it), (''output_times'', ot)] s
       = (Inl (TypeError (Missing [''symbol_input''])), s)
   \<and> PROSE_Fluids_fwd m d it ot si pm = PROSE_Fluids_fwd m d it ot PyNone pm"
proof -
  have a: "\<exists>a. call_kwargs (PROSE_Fluids_fwd m) kwargs s = (Inl (TypeError a), s) \<and>
           (case a of Missing ms \<Rightarrow> ''symbol_input'' \<in> set ms
            | Unexpected k \<Rightarrow> k \<notin> set fwd_parameters)"
    if n: "map_of kwargs ''symbol_input'' = None"
  proof (cases "find (\<lambda>k. k \<notin> set fwd_parameters) (map fst kwargs)")
    case None
    with n show ?thesis
      by (simp add: call_kwargs_def py_raise_def fwd_required_def split: option.splits)
  next
    case (Some k)
    then have "k \<notin> set fwd_parameters"
      by (auto simp: find_Some_iff)
    with Some show ?thesis
      by (simp add: call_kwargs_def py_raise_def)
  qed
  have b: "\<exists>a. PROSE_Fluids_forward m mode kwargs s = (Inl (TypeError a), s)"
    if "map_of kwargs ''symbol_input'' = None \<and> mode \<in> {''fwd'', ''generate''}"
    using that a by (auto simp: Fluids_forward_cases)
  have c: "call_kwargs (PROSE_Fluids_fwd m)
        [(''data_input'', d), (''input_times'', it), (''output_times'', ot)] s
       = (Inl (TypeError (Missing [''symbol_input''])), s)"
    by (simp add: call_kwargs_def py_raise_def fwd_required_def fwd_parameters_def)
  have i: "PROSE_Fluids_fwd m d it ot si pm = PROSE_Fluids_fwd m d it ot PyNone pm"
    by (simp add: PROSE_Fluids_fwd_def)
  show ?thesis
    by (intro conjI impI a b c i; (elim conjE)?; assumption)
qed

theorem symbol_input_required_witness:
  "map_of [(''data_input'', fluids_field), (''input_times'', time_stamps 3),
           (''output_times'', time_stamps 2)] ''symbol_input'' = None
   \<and> ''generate'' \<in> {''fwd'', ''generate''}
   \<and> (\<exists>a. PROSE_Fluids_forward (spec_modules fluids_config) ''generate''
          [(''data_input'', fluids_field), (''input_times'', time_stamps 3),
           (''output_times'', time_stamps 2)] 0 = (Inl (TypeError a), 0))
   \<and> (\<exists>a. call_kwargs (PROSE_Fluids_fwd (spec_modules fluids_config))
          [(''data_input'', fluids_field), (''input_times'', time_stamps 3),
           (''output_times'', time_stamps 2)] 0 = (Inl (TypeError a), 0) \<and>
          (case a of Missing ms \<Rightarrow> ''symbol_input'' \<in> set ms
            | Unexpected k \<Rightarrow> k \<notin> set fwd_parameters))"
proof -
  let ?kw = "[(''data_input'', fluids_field), (''input_times'', time_stamps 3),
           (''output_times'', time_stamps 2)]"
  have h1: "map_of ?kw ''symbol_input'' = None"
    by simp
  have h2: "''generate'' \<in> {''fwd'', ''generate''}"
    by simp
  note t = symbol_input_required [where m = "spec_modules fluids_config" and kwargs = ?kw
      and s = 0 and mode = "''generate''"]
  note c1 = t [THEN conjunct1, THEN mp, OF h1]
  note c2 = t [THEN conjunct2, THEN conjunct1, THEN mp, OF conjI [OF h1 h2]]
  show ?thesis
    by (intro conjI h1 h2 c1 c2)
qed

section \<open>Shapes\<close>

text \<open>
  Claim C3. Let the sub-modules produce the shapes the specification gives them, for an
  embedder configured with a spatial grid and a channel count. For a \<open>data_input\<close> of
  shape batch \<open>\<times>\<close> input length \<open>\<times>\<close> grid \<open>\<times>\<close> channel and \<open>output_times\<close> of shape
  batch \<open>\<times>\<close> output length \<open>\<times>\<close> 1, the field tensor a returning call of \<open>fwd\<close> yields
  (the result itself in 2D, the entry \<open>"data_output"\<close> in 1D) has shape batch \<open>\<times>\<close>
  output length \<open>\<times>\<close> grid \<open>\<times>\<close> channel: batch, grid and channel are those of the input
  and the time dimension is the output length.
\<close>

theorem output_shape:
  assumes c: "shape_contract c m"
    and x: "shape x = bs # il # grid c @ [channels c]"
    and t: "shape t = [bs, ol, 1]"
  shows "(PROSE_Fluids_fwd m (PyTensor x) it (PyTensor t) si pm s = (Inr r, s') \<longrightarrow>
           (\<exists>out. r = PyTensor out \<and> shape out = bs # ol # grid c @ [channels c]))
       \<and> (PROSE_1DPDE_fwd m (PyTensor x) it (PyTensor t) si pm s = (Inr r, s') \<longrightarrow>
           (\<exists>out. data_output_of r = Some out \<and> shape out = bs # ol # grid c @ [channels c]))"
proof (intro conjI impI)
  assume "PROSE_Fluids_fwd m (PyTensor x) it (PyTensor t) si pm s = (Inr r, s')"
  then obtain enc s2 q s3 dec s4 out where
    q: "get_query_emb m (PyTensor t) s2 = (Inr q, s3)" and
    dec: "data_decoder m enc q PyNone s3 = (Inr dec, s4)" and
    out: "embedder_decode m dec s4 = (Inr out, s')" and r: "r = PyTensor out"
    unfolding Fluids_fwd_Inr by blast
  from contract_query [OF c q t] contract_decoder [OF c dec]
  have "shape dec = [bs, ol * query_patches c, hidden_dim c]"
    by simp
  from contract_decode [OF c out this] r
  show "\<exists>out. r = PyTensor out \<and> shape out = bs # ol # grid c @ [channels c]"
    by blast
next
  assume "PROSE_1DPDE_fwd m (PyTensor x) it (PyTensor t) si pm s = (Inr r, s')"
  then obtain emb enc sym fused fused_mask s4 q s5 dec s6 out where
    q: "get_query_emb m (PyTensor t) s4 = (Inr q, s5)" and
    dec: "data_decoder m fused q fused_mask s5 = (Inr dec, s6)" and
    out: "embedder_decode m dec s6 = (Inr out, s')" and
    r: "r = PyDict [(''data_embeded'', emb), (''data_encoded'', enc), (''symbol_encoded'', sym),
                    (''fused'', fused), (''data_output'', out)]"
    unfolding PDE_fwd_Inr by blast
  from contract_query [OF c q t] contract_decoder [OF c dec]
  have "shape dec = [bs, ol * query_patches c, hidden_dim c]"
    by simp
  from contract_decode [OF c out this] r
  show "\<exists>out. data_output_of r = Some out \<and> shape out = bs # ol # grid c @ [channels c]"
    by (simp add: data_output_of_def)
qed

theorem output_shape_witness:
  "shape_contract fluids_config (spec_modules fluids_config)
   \<and> shape (Tensor [1, 3, 4, 4, 3] ()) = 1 # 3 # grid fluids_config @ [channels fluids_config]
   \<and> shape (Tensor [1, 2, 1] ()) = [1, 2, 1]
   \<and> PROSE_Fluids_fwd (spec_modules fluids_config) (PyTensor (Tensor [1, 3, 4, 4, 3] ()))
        (time_stamps 3) (PyTensor (Tensor [1, 2, 1] ())) tokens padding 0
      = (Inr (PyTensor (Tensor [1, 2, 4, 4, 3] ())), 5)
   \<and> (\<exists>out. PyTensor (Tensor [1, 2, 4, 4, 3] ()) = PyTensor out \<and>
         shape out = 1 # 2 # grid fluids_config @ [channels fluids_config])
   \<and> shape_contract pde_config (spec_modules pde_config)
   \<and> shape (Tensor [1, 3, 4, 3] ()) = 1 # 3 # grid pde_config @ [channels pde_config]
   \<and> (\<exists>r s'. PROSE_1DPDE_fwd (spec_modules pde_config) (PyTensor (Tensor [1, 3, 4, 3] ()))
        (time_stamps 3) (PyTensor (Tensor [1, 2, 1] ())) tokens padding 0 = (Inr r, s') \<and>
       (\<exists>out. data_output_of r = Some out \<and>
         shape out = 1 # 2 # grid pde_config @ [channels pde_config]))"
proof -
  let ?x5 = "Tensor [1, 3, 4, 4, 3] ()"
  let ?x4 = "Tensor [1, 3, 4, 3] ()"
  let ?t = "Tensor [1, 2, 1] ()"
  let ?r = "PyDict [(''data_embeded'', Tensor [1, 6, 8] ()), (''data_encoded'', Tensor [1, 6, 8] ()),
                     (''symbol_encoded'', Tensor [1, 5, 8] ()), (''fused'', Tensor [1, 11, 8] ()),
                     (''data_output'', Tensor [1, 2, 4, 3] ())]"
  have x5: "shape ?x5 = 1 # 3 # grid fluids_config @ [channels fluids_config]"
    by (simp add: fluids_config_def)
  have x4: "shape ?x4 = 1 # 3 # grid pde_config @ [channels pde_config]"
    by (simp add: pde_config_def)
  have t: "shape ?t = [1, 2, 1]"
    by simp
  have h1: "PROSE_Fluids_fwd (spec_modules fluids_config) (PyTensor ?x5)
        (time_stamps 3) (PyTensor ?t) tokens padding 0
      = (Inr (PyTensor (Tensor [1, 2, 4, 4, 3] ())), 5)"
    using sample_Fluids_run [of tokens padding] by (simp add: fluids_field_def time_stamps_def)
  have h2: "PROSE_1DPDE_fwd (spec_modules pde_config) (PyTensor ?x4)
        (time_stamps 3) (PyTensor ?t) tokens padding 0 = (Inr ?r, 7)"
    using sample_1DPDE_run by (simp add: pde_field_def time_stamps_def)
  note c1 = output_shape [OF sample_contracts(1) x5 t, THEN conjunct1, THEN mp, OF h1]
  note c2 = output_shape [OF sample_contracts(2) x4 t, THEN conjunct2, THEN mp, OF h2]
  show ?thesis
    apply (intro conjI)
           apply (rule sample_contracts(1))
          apply (rule x5)
         apply (rule t)
        apply (rule h1)
       apply (rule c1)
      apply (rule sample_contracts(2))
     apply (rule x4)
    apply (rule exI [of _ ?r], rule exI [of _ 7], rule conjI [OF h2 c2])
    done
qed

text \<open>
  The latent sequence lengths. As claim C8 states it, the sequence the decoder consumes
  has length \<open>input_len * patch_num\<close> in the 1D variant as well. There the decoder is
  given the fused sequence, which the fusion makes of the data encoding and the symbol
  encoding (\<open>data_len + symbol_len\<close>, line 258 of the source): in the sample call,
  three input times, two patches and five tokens give a context of length 11, not 6.
\<close>

theorem decoder_sequence_length_counterexample:
  "shape_contract pde_config (spec_modules pde_config)
   \<and> PROSE_1DPDE_fwd (traced (spec_modules pde_config)) pde_field (time_stamps 3) (time_stamps 2)
        tokens padding (0, [])
      = (Inr (PyDict [(''data_embeded'', Tensor [1, 6, 8] ()), (''data_encoded'', Tensor [1, 6, 8] ()),
                     (''symbol_encoded'', Tensor [1, 5, 8] ()), (''fused'', Tensor [1, 11, 8] ()),
                     (''data_output'', Tensor [1, 2, 4, 3] ())]), 7,
        [(Embed, [pde_field, time_stamps 3]), (Encode_data, [PyTensor (Tensor [1, 6, 8] ())]),
         (Encode_symbol, [tokens, padding]),
         (Fuse, [PyTensor (Tensor [1, 6, 8] ()), PyTensor (Tensor [1, 5, 8] ()), PyNone, padding]),
         (Build_queries, [time_stamps 2]),
         (Decode, [PyTensor (Tensor [1, 11, 8] ()), PyTensor (Tensor [1, 4, 8] ()),
                   PyTensor (Tensor [1, 11] ())]),
         (Inverse_embed, [PyTensor (Tensor [1, 4, 8] ())])])
   \<and> pde_field = PyTensor (Tensor [1, 3, 4, 3] ())
   \<and> shape (Tensor [1, 11, 8] ()) ! 1 \<noteq> 3 * patch_num pde_config"
  by (intro conjI sample_contracts sample_1DPDE_traced_run)
    (simp_all add: pde_field_def pde_config_def)

text \<open>
  Claim C8, amended. In every returning call the data encoder consumes a latent sequence
  of length \<open>data_len\<close>, which is \<open>input_len * patch_num * patch_num\<close> in the 2D
  variant and \<open>input_len * patch_num\<close> in the 1D variant; the decoder consumes a context
  of length \<open>data_len\<close> in the 2D variant and of length \<open>data_len + symbol_len\<close> in
  the 1D variant.
\<close>

theorem sequence_lengths:
  assumes c: "shape_contract c m"
    and x: "shape x = bs # il # grid c @ [channels c]"
  shows "(PROSE_Fluids_fwd (traced m) (PyTensor x) it ot si pm (s, []) = (Inr r, s', log) \<longrightarrow>
           (\<exists>emb enc q k.
              map_of log Encode_data = Some [PyTensor emb] \<and>
              shape emb = [bs, il * patch_num c * patch_num c, hidden_dim c] \<and>
              map_of log Decode = Some [PyTensor enc, PyTensor q, k] \<and>
              shape enc = [bs, il * patch_num c * patch_num c, hidden_dim c]))
       \<and> (PROSE_1DPDE_fwd (traced m) (PyTensor x) it ot (PyTensor y) pm (s, []) = (Inr r, s', log)
            \<and> shape y = [bs, sl] \<longrightarrow>
           (\<exists>emb fused q k.
              map_of log Encode_data = Some [PyTensor emb] \<and>
              shape emb = [bs, il * patch_num c, hidden_dim c] \<and>
              map_of log Decode = Some [PyTensor fused, PyTensor q, k] \<and>
              shape fused = [bs, il * patch_num c + sl, hidden_dim c]))"
proof (intro conjI impI)
  assume "PROSE_Fluids_fwd (traced m) (PyTensor x) it ot si pm (s, []) = (Inr r, s', log)"
  then obtain emb s1 enc s2 q dec where
    rank: "length (shape x) = 5" and
    emb: "embedder_encode m x it s = (Inr emb, s1)" and
    enc: "data_encoder m emb s1 = (Inr enc, s2)" and
    log: "log = [(Embed, [PyTensor x, it]), (Encode_data, [PyTensor emb]),
                 (Build_queries, [ot]), (Decode, [PyTensor enc, PyTensor q, PyNone]),
                 (Inverse_embed, [PyTensor dec])]"
    unfolding traced_Fluids_fwd_Inr append_Nil by (elim exE conjE) simp
  from rank x have "length (grid c) = 2"
    by simp
  with contract_embed [OF c emb x]
  have e: "shape emb = [bs, il * patch_num c * patch_num c, hidden_dim c]"
    by (simp add: power2_eq_square)
  with contract_encoder [OF c enc]
  have "shape enc = [bs, il * patch_num c * patch_num c, hidden_dim c]"
    by simp
  with e log show "\<exists>emb enc q k.
              map_of log Encode_data = Some [PyTensor emb] \<and>
              shape emb = [bs, il * patch_num c * patch_num c, hidden_dim c] \<and>
              map_of log Decode = Some [PyTensor enc, PyTensor q, k] \<and>
              shape enc = [bs, il * patch_num c * patch_num c, hidden_dim c]"
    by simp
next
  assume "PROSE_1DPDE_fwd (traced m) (PyTensor x) it ot (PyTensor y) pm (s, []) = (Inr r, s', log)
            \<and> shape y = [bs, sl]"
  then obtain emb s1 enc s2 sym s3 fused fused_mask s4 q dec where
    y: "shape y = [bs, sl]" and
    rank: "length (shape x) = 4" and
    emb: "embedder_encode m x it s = (Inr emb, s1)" and
    enc: "data_encoder m emb s1 = (Inr enc, s2)" and
    sym: "symbol_encoder m (PyTensor y) pm s2 = (Inr sym, s3)" and
    fus: "fusion m enc sym PyNone pm s3 = (Inr (fused, fused_mask), s4)" and
    log: "log = [(Embed, [PyTensor x, it]), (Encode_data, [PyTensor emb]),
                 (Encode_symbol, [PyTensor y, pm]),
                 (Fuse, [PyTensor enc, PyTensor sym, PyNone, pm]),
                 (Build_queries, [ot]),
                 (Decode, [PyTensor fused, PyTensor q, fused_mask]),
                 (Inverse_embed, [PyTensor dec])]"
    unfolding traced_1DPDE_fwd_Inr append_Nil by (elim exE conjE) simp
  from rank x have "length (grid c) = 1"
    by simp
  with contract_embed [OF c emb x]
  have e: "shape emb = [bs, il * patch_num c, hidden_dim c]"
    by simp
  with contract_encoder [OF c enc]
  have "shape enc = [bs, il * patch_num c, hidden_dim c]"
    by simp
  from contract_fusion [OF c fus this contract_symbol [OF c sym y]]
  have "shape fused = [bs, il * patch_num c + sl, hidden_dim c]" .
  with e log show "\<exists>emb fused q k.
              map_of log Encode_data = Some [PyTensor emb] \<and>
              shape emb = [bs, il * patch_num c, hidden_dim c] \<and>
              map_of log Decode = Some [PyTensor fused, PyTensor q, k] \<and>
              shape fused = [bs, il * patch_num c + sl, hidden_dim c]"
    by simp
qed

theorem sequence_lengths_witness:
  "shape_contract fluids_config (spec_modules fluids_config)
   \<and> shape (Tensor [1, 3, 4, 4, 3] ()) = 1 # 3 # grid fluids_config @ [channels fluids_config]
   \<and> (\<exists>r s' log.
        PROSE_Fluids_fwd (traced (spec_modules fluids_config)) (PyTensor (Tensor [1, 3, 4, 4, 3] ()))
          (time_stamps 3) (time_stamps 2) tokens padding (0, []) = (Inr r, s', log) \<and>
        (\<exists>emb enc q k.
              map_of log Encode_data = Some [PyTensor emb] \<and>
              shape emb = [1, 3 * patch_num fluids_config * patch_num fluids_config,
                           hidden_dim fluids_config] \<and>
              map_of log Decode = Some [PyTensor enc, PyTensor q, k] \<and>
              shape enc = [1, 3 * patch_num fluids_config * patch_num fluids_config,
                           hidden_dim fluids_config]))
   \<and> shape_contract pde_config (spec_modules pde_config)
   \<and> shape (Tensor [1, 3, 4, 3] ()) = 1 # 3 # grid pde_config @ [channels pde_config]
   \<and> shape (Tensor [1, 5] ()) = [1, 5]
   \<and> (\<exists>r s' log.
        PROSE_1DPDE_fwd (traced (spec_modules pde_config)) (PyTensor (Tensor [1, 3, 4, 3] ()))
          (time_stamps 3) (time_stamps 2) (PyTensor (Tensor [1, 5] ())) padding (0, [])
          = (Inr r, s', log) \<and>
        (\<exists>emb fused q k.
              map_of log Encode_data = Some [PyTensor emb] \<and>
              shape emb = [1, 3 * patch_num pde_config, hidden_dim pde_config] \<and>
              map_of log Decode = Some [PyTensor fused, PyTensor q, k] \<and>
              shape fused = [1, 3 * patch_num pde_config + 5, hidden_dim pde_config]))"
proof -
  let ?x5 = "Tensor [1, 3, 4, 4, 3] ()"
  let ?x4 = "Tensor [1, 3, 4, 3] ()"
  let ?y = "Tensor [1, 5] ()"
  have x5: "shape ?x5 = 1 # 3 # grid fluids_config @ [channels fluids_config]"
    by (simp add: fluids_config_def)
  have x4: "shape ?x4 = 1 # 3 # grid pde_config @ [channels pde_config]"
    by (simp add: pde_config_def)
  have y: "shape ?y = [1, 5]"
    by simp
  note h1 = sample_Fluids_traced_run [of tokens padding, unfolded fluids_field_def]
  note h2 = sample_1DPDE_traced_run [unfolded pde_field_def tokens_def]
  note c1 = sequence_lengths [OF sample_contracts(1) x5, THEN conjunct1, THEN mp, OF h1]
  note c2 = sequence_lengths [OF sample_contracts(2) x4, THEN conjunct2, THEN mp,
      OF conjI [OF h2 y]]
  show ?thesis
    apply (intro conjI)
          apply (rule sample_contracts(1))
         apply (rule x5)
        apply (intro exI, rule conjI [OF h1 c1])
       apply (rule sample_contracts(2))
      apply (rule x4)
     apply (rule y)
    apply (intro exI, rule conjI [OF h2 c2])
    done
qed

section \<open>The two variants compared\<close>

text \<open>
  As claim C5 states it, the variants differ only in the symbol path and agree in the
  inputs they accept and in the form of what they return. Even with a symbol path that
  does nothing, they do not: on the same sub-modules and the same five-dimensional input
  the 2D variant returns a tensor where the 1D variant raises on unpacking four sizes,
  and on a four-dimensional input the 1D variant returns a dictionary where the 2D
  variant raises on unpacking five.
\<close>

theorem variants_counterexample:
  "inert_symbol_path (inert_modules fluids_config)
   \<and> PROSE_Fluids_fwd (inert_modules fluids_config) fluids_field (time_stamps 3) (time_stamps 2)
        tokens padding 0
      = (Inr (PyTensor (Tensor [1, 2, 4, 4, 3] ())), 5)
   \<and> PROSE_1DPDE_fwd (inert_modules fluids_config) fluids_field (time_stamps 3) (time_stamps 2)
        tokens padding 0
      = (Inl (ValueError 4 5), 0)
   \<and> inert_symbol_path (inert_modules pde_config)
   \<and> PROSE_1DPDE_fwd (inert_modules pde_config) pde_field (time_stamps 3) (time_stamps 2)
        tokens padding 0
      = (Inr (PyDict [(''data_embeded'', Tensor [1, 6, 8] ()), (''data_encoded'', Tensor [1, 6, 8] ()),
                      (''symbol_encoded'', Tensor [] ()), (''fused'', Tensor [1, 6, 8] ()),
                      (''data_output'', Tensor [1, 2, 4, 3] ())]), 5)
   \<and> PROSE_Fluids_fwd (inert_modules pde_config) pde_field (time_stamps 3) (time_stamps 2)
        tokens padding 0
      = (Inl (ValueError 5 4), 0)"
  by (intro conjI inert_modules_inert)
    (simp_all add: PROSE_Fluids_fwd_def PROSE_1DPDE_fwd_def run_defs)

text \<open>
  Claim C5, amended. The variants differ in whether the symbol-encoder and fusion path is
  active, in the number of dimensions of \<open>data_input\<close> they unpack (five in 2D, four
  in 1D), and in the form of the result (the decoded tensor in 2D, a dictionary holding
  it under \<open>"data_output"\<close> in 1D). In the remaining steps they compute the same way:
  \<open>PROSE_Fluids.fwd\<close> is its unpacking followed by the steps embed, encode, build
  queries, decode, inverse-embed, and with a symbol path that returns the data encoding
  with no mask and leaves the module state alone, \<open>PROSE_1DPDE.fwd\<close> on a
  four-dimensional input puts under \<open>"data_output"\<close> what these steps compute, raises
  what they raise and leaves the state they leave. The specified order of the 1D variant
  without its two symbol stages is the order of the 2D variant.
\<close>

theorem variants_compared:
  "(inert_symbol_path m \<and> length (shape x) = 4 \<longrightarrow>
      apfst (map_sum id data_output_of) (PROSE_1DPDE_fwd m (PyTensor x) it ot si pm s)
        = apfst (map_sum id Some) (PROSE_Fluids_steps m x it ot s))
   \<and> PROSE_Fluids_fwd m d it ot si pm =
       py_bind (tensor_size d) (\<lambda>x. py_bind (unpack 5 (shape x)) (\<lambda>_.
       py_bind (PROSE_Fluids_steps m x it ot) (\<lambda>out. py_return (PyTensor out))))
   \<and> (length (shape x) \<noteq> 4 \<longrightarrow>
      PROSE_1DPDE_fwd m (PyTensor x) it ot si pm s = (Inl (ValueError 4 (length (shape x))), s))
   \<and> (length (shape x) \<noteq> 5 \<longrightarrow>
      PROSE_Fluids_fwd m (PyTensor x) it ot si pm s = (Inl (ValueError 5 (length (shape x))), s))
   \<and> filter (\<lambda>st. st \<noteq> Encode_symbol \<and> st \<noteq> Fuse) (spec_order True) = spec_order False"
proof (intro conjI impI)
  assume a: "inert_symbol_path m \<and> length (shape x) = 4"
  show "apfst (map_sum id data_output_of) (PROSE_1DPDE_fwd m (PyTensor x) it ot si pm s)
        = apfst (map_sum id Some) (PROSE_Fluids_steps m x it ot s)"
    by (rule PDE_fwd_inert [OF a [THEN conjunct1] a [THEN conjunct2]])
next
  show "PROSE_Fluids_fwd m d it ot si pm =
       py_bind (tensor_size d) (\<lambda>x. py_bind (unpack 5 (shape x)) (\<lambda>_.
       py_bind (PROSE_Fluids_steps m x it ot) (\<lambda>out. py_return (PyTensor out))))"
    by (rule Fluids_fwd_steps)
next
  assume "length (shape x) \<noteq> 4"
  then show "PROSE_1DPDE_fwd m (PyTensor x) it ot si pm s
      = (Inl (ValueError 4 (length (shape x))), s)"
    by (rule PDE_fwd_rank)
next
  assume "length (shape x) \<noteq> 5"
  then show "PROSE_Fluids_fwd m (PyTensor x) it ot si pm s
      = (Inl (ValueError 5 (length (shape x))), s)"
    by (rule Fluids_fwd_rank)
next
  show "filter (\<lambda>st. st \<noteq> Encode_symbol \<and> st \<noteq> Fuse) (spec_order True) = spec_order False"
    by (simp add: spec_order_def)
qed

theorem variants_compared_witness:
  "inert_symbol_path (inert_modules pde_config)
   \<and> length (shape (Tensor [1, 3, 4, 3] ())) = 4
   \<and> apfst (map_sum id data_output_of)
        (PROSE_1DPDE_fwd (inert_modules pde_config) (PyTensor (Tensor [1, 3, 4, 3] ()))
           (time_stamps 3) (time_stamps 2) tokens padding 0)
      = apfst (map_sum id Some)
        (PROSE_Fluids_steps (inert_modules pde_config) (Tensor [1, 3, 4, 3] ())
           (time_stamps 3) (time_stamps 2) 0)
   \<and> PROSE_Fluids_steps (inert_modules pde_config) (Tensor [1, 3, 4, 3] ())
           (time_stamps 3) (time_stamps 2) 0 = (Inr (Tensor [1, 2, 4, 3] ()), 5)
   \<and> length (shape (Tensor [1, 3, 4, 4, 3] ())) \<noteq> 4
   \<and> PROSE_1DPDE_fwd (inert_modules pde_config) (PyTensor (Tensor [1, 3, 4, 4, 3] ()))
        (time_stamps 3) (time_stamps 2) tokens padding 0
      = (Inl (ValueError 4 (length (shape (Tensor [1, 3, 4, 4, 3] ())))), 0)
   \<and> length (shape (Tensor [1, 3, 4, 3] ())) \<noteq> 5
   \<and> PROSE_Fluids_fwd (inert_modules pde_config) (PyTensor (Tensor [1, 3, 4, 3] ()))
        (time_stamps 3) (time_stamps 2) tokens padding 0
      = (Inl (ValueError 5 (length (shape (Tensor [1, 3, 4, 3] ())))), 0)"
proof -
  let ?m = "inert_modules pde_config"
  let ?x4 = "Tensor [1, 3, 4, 3] ()"
  let ?x5 = "Tensor [1, 3, 4, 4, 3] ()"
  have h1: "inert_symbol_path ?m \<and> length (shape ?x4) = 4"
    by (simp add: inert_modules_inert)
  have h3: "length (shape ?x5) \<noteq> 4"
    by simp
  have h4: "length (shape ?x4) \<noteq> 5"
    by simp
  have run: "PROSE_Fluids_steps ?m ?x4 (time_stamps 3) (time_stamps 2) 0
      = (Inr (Tensor [1, 2, 4, 3] ()), 5)"
    by (simp add: PROSE_Fluids_steps_def run_defs)
  note c1 = variants_compared [where m = ?m and x = ?x4 and s = 0, THEN conjunct1, THEN mp, OF h1]
  note c3 = variants_compared [where m = ?m and x = ?x5 and s = 0,
      THEN conjunct2, THEN conjunct2, THEN conjunct1, THEN mp, OF h3]
  note c4 = variants_compared [where m = ?m and x = ?x4 and s = 0,
      THEN conjunct2, THEN conjunct2, THEN conjunct2, THEN conjunct1, THEN mp, OF h4]
  show ?thesis
    by (intro conjI h1 [THEN conjunct1] h1 [THEN conjunct2] c1 run h3 c3 h4 c4)
qed

end
